theory Spec2Isabelle
  imports Complex_Main "HOL-Library.Sublist"
begin

section \<open>JavaScript values used by the importer\<close>

text \<open>
  A parsed CSV row is the object that the CSV parser builds with \<open>columns: true\<close>: its keys
  are the header cells, in file order, and its values are the cells as strings. It is
  modelled as an association list; \<open>r['Key']\<close> is \<open>get r ''Key''\<close>, which is
  \<open>None\<close> where JavaScript gives \<open>undefined\<close>.

  Strings are byte strings. Case folding and white space are those of ASCII, which is
  what every literal of the source needs; numbers are exact rationals, so the rounding of
  IEEE doubles is not part of the model.
\<close>

type_synonym row = "(string \<times> string) list"

definition get :: "row \<Rightarrow> string \<Rightarrow> string option" where
  "get r k = map_of r k"

definition keys :: "row \<Rightarrow> string list" where
  "keys r = map fst r"

text \<open>\<open>a || b\<close> on cells: \<open>undefined\<close> and the empty string are falsy.\<close>

definition truthy :: "string option \<Rightarrow> bool" where
  "truthy v = (case v of None \<Rightarrow> False | Some s \<Rightarrow> s \<noteq> [])"

definition js_or :: "string option \<Rightarrow> string option \<Rightarrow> string option" where
  "js_or a b = (if truthy a then a else b)"

text \<open>\<open>v || ''\<close> followed by a use as a string.\<close>

definition or_empty :: "string option \<Rightarrow> string" where
  "or_empty v = (case v of None \<Rightarrow> [] | Some s \<Rightarrow> s)"

definition toLowerCase_char :: "char \<Rightarrow> char" where
  "toLowerCase_char c =
     (case map_of (zip ''ABCDEFGHIJKLMNOPQRSTUVWXYZ'' ''abcdefghijklmnopqrstuvwxyz'') c of
        Some l \<Rightarrow> l
      | None \<Rightarrow> c)"

definition toLowerCase :: "string \<Rightarrow> string" where
  "toLowerCase s = map toLowerCase_char s"

definition is_space :: "char \<Rightarrow> bool" where
  "is_space c = (let n = (of_char c :: nat) in n = 32 \<or> (9 \<le> n \<and> n \<le> 13))"

definition trim :: "string \<Rightarrow> string" where
  "trim s = rev (dropWhile is_space (rev (dropWhile is_space s)))"

definition is_digit :: "char \<Rightarrow> bool" where
  "is_digit c = (let n = (of_char c :: nat) in 48 \<le> n \<and> n \<le> 57)"

definition digit_val :: "char \<Rightarrow> nat" where
  "digit_val c = of_char c - 48"

text \<open>\<open>s.includes(sub)\<close> on strings.\<close>

fun includes_str :: "string \<Rightarrow> string \<Rightarrow> bool" where
  "includes_str [] sub = (sub = [])"
| "includes_str (c # cs) sub = (prefix sub (c # cs) \<or> includes_str cs sub)"

section \<open>Format classifier (\<open>detectCsvType\<close>)\<close>

datatype csv_type = po_bills | bank_batch | halo_invoices | stripe_csv | bank_generic | unknown










text \<open>The five synonym lists of the generic purchase-order rule, as the classifier spells them.\<close>

definition vendorSyn :: "string list" where
  "vendorSyn = [''vendor'', ''supplier'', ''vendor name'']"

definition refSyn :: "string list" where
  "refSyn = [''refnumber'', ''ref number'', ''reference'', ''reference number'', ''docnum'',
             ''document number'']"


definition qtySyn :: "string list" where
  "qtySyn = [''qty'', ''quantity'', ''qnty'']"

definition costSyn :: "string list" where
  "costSyn = [''cost'', ''unit cost'', ''price'', ''unit price'', ''rate'']"


section \<open>Numbers read from cells\<close>

text \<open>
  Every \<open>Number(...)\<close> of the importer is applied to a string from which
  \<open>replace(/[^0-9.-]/g, '')\<close> has removed all but digits, dots and minus signs. On such
  strings the conversion accepts the empty string (as 0) and an optional minus sign
  followed by \<open>d+\<close>, \<open>d+.d*\<close> or \<open>.d+\<close>; anything else is \<open>NaN\<close>, here \<open>None\<close>.
\<close>

definition keep_numeric :: "string \<Rightarrow> string" where
  "keep_numeric s = filter (\<lambda>c. is_digit c \<or> c = CHR ''.'' \<or> c = CHR ''-'') s"

definition digits_val :: "string \<Rightarrow> nat" where
  "digits_val ds = foldl (\<lambda>a c. 10 * a + digit_val c) 0 ds"

definition unsigned_decimal :: "string \<Rightarrow> rat option" where
  "unsigned_decimal s =
     (let ip = takeWhile is_digit s; rest = dropWhile is_digit s
      in case rest of
           [] \<Rightarrow> if ip = [] then None else Some (of_nat (digits_val ip))
         | c # fp \<Rightarrow>
             if c = CHR ''.'' \<and> list_all is_digit fp \<and> (ip \<noteq> [] \<or> fp \<noteq> [])
             then Some (of_nat (digits_val ip) + of_nat (digits_val fp) / 10 ^ length fp)
             else None)"

definition jsNumber :: "string \<Rightarrow> rat option" where
  "jsNumber s =
     (case s of
        [] \<Rightarrow> Some 0
      | c # cs \<Rightarrow> if c = CHR ''-'' then map_option uminus (unsigned_decimal cs)
                 else unsigned_decimal s)"

text \<open>\<open>parseNumber\<close> of \<open>importBankFile\<close>: \<open>undefined\<close> and \<open>NaN\<close> become 0.\<close>

definition parseNumber :: "string option \<Rightarrow> rat" where
  "parseNumber v =
     (case v of
        None \<Rightarrow> 0
      | Some s \<Rightarrow> (case jsNumber (keep_numeric s) of None \<Rightarrow> 0 | Some n \<Rightarrow> n))"

section \<open>Bank transaction normaliser (\<open>importBankFile\<close>)\<close>

text \<open>
  \<open>new Date(s)\<close> of a cell, or \<open>new Date()\<close> (the time of the import) when the row has
  no date cell.
\<close>

datatype js_date = DateOf string | Now

text \<open>
  A candidate bank transaction. The \<open>checksum\<close> field of the source (an MD5 digest of
  some of the cells) is only stored and is left out.
\<close>

record bank_txn =
  external_id :: "string option"
  txn_date :: js_date
  amount :: rat
  currency :: string
  description :: string
  memo :: string
  balance_after :: "rat option"
  raw :: row

text \<open>The separator \<open>" \<bullet> "\<close> of the descriptions: a bullet (U+2022) in UTF-8 between spaces.\<close>

definition bullet_sep :: string where
  "bullet_sep = [CHR '' '', char_of (226 :: nat), char_of (128 :: nat), char_of (162 :: nat), CHR '' '']"

text \<open>
  The body of the loop over the rows of a \<open>bank_batch\<close> file. \<open>batch_ref\<close>, \<open>batch_dr\<close>
  and \<open>batch_cr\<close> are the constants \<open>ref\<close>, \<open>dr\<close> and \<open>cr\<close> of the source.
\<close>

definition batch_ref :: "row \<Rightarrow> string" where
  "batch_ref r = or_empty (js_or (get r ''Reference Number'') (get r ''reference number''))"

definition batch_dr :: "row \<Rightarrow> rat" where
  "batch_dr r = parseNumber (js_or (get r ''DR Amount'') (get r ''dr amount''))"

definition batch_cr :: "row \<Rightarrow> rat" where
  "batch_cr r = parseNumber (js_or (get r ''CR Amount'') (get r ''cr amount''))"

definition batch_row_txns :: "row \<Rightarrow> bank_txn list" where
  "batch_row_txns r =
     (let effective = js_or (js_or (js_or (get r ''Effective Date'') (get r ''effective date''))
                          (get r ''Date'')) (get r ''date'');
          transferDesc = or_empty (js_or (get r ''Transfer Description'') (get r ''transfer description''));
          company = or_empty (js_or (get r ''Company Name'') (get r ''company name''));
          batchType = or_empty (js_or (get r ''Batch Type'') (get r ''batch type''));
          sec = or_empty (js_or (get r ''SEC Code'') (get r ''sec code''));
          itemCount = or_empty (js_or (get r ''Item Count'') (get r ''item count''));
          status = or_empty (js_or (get r ''Batch Status'') (get r ''batch status''));
          ref = batch_ref r;
          dr = batch_dr r;
          cr = batch_cr r;
          baseDesc = trim transferDesc;
          memoBase = ''Company: '' @ company @ '' | SEC: '' @ sec @ '' | Items: '' @ itemCount
                     @ '' | Status: '' @ status @ '' | Type: '' @ batchType;
          txnDate = (if truthy effective then DateOf (or_empty effective) else Now)
      in (if cr > 0
          then [\<lparr>external_id = (if ref \<noteq> [] then Some (ref @ ''-CR'') else None),
                 txn_date = txnDate, amount = cr, currency = ''USD'',
                 description = baseDesc @ bullet_sep @ ''CR'', memo = memoBase,
                 balance_after = None, raw = r\<rparr>]
          else [])
         @ (if dr > 0
            then [\<lparr>external_id = (if ref \<noteq> [] then Some (ref @ ''-DR'') else None),
                   txn_date = txnDate, amount = - \<bar>dr\<bar>, currency = ''USD'',
                   description = baseDesc @ bullet_sep @ ''DR'', memo = memoBase,
                   balance_after = None, raw = r\<rparr>]
            else []))"

text \<open>
  The body of the loop over the rows of a \<open>bank_generic\<close> file. \<open>String_of_number\<close> is the
  number-to-string conversion of the JavaScript runtime, used by the template literal
  \<open>`-${Math.abs(parseNumber(r['Debit']))}`\<close>; it is a parameter of the model.
  \<open>generic_amount\<close> is the constant \<open>amount\<close> of the source, \<open>undefined\<close> being \<open>None\<close>.
\<close>

definition generic_amount :: "(rat \<Rightarrow> string) \<Rightarrow> row \<Rightarrow> string option" where
  "generic_amount String_of_number r =
     (if truthy (js_or (js_or (get r ''Amount'') (get r ''Credit'')) (get r ''Debit''))
      then js_or (js_or (get r ''Amount'') (get r ''Credit''))
             (Some (''-'' @ String_of_number \<bar>parseNumber (get r ''Debit'')\<bar>))
      else get r ''amount'')"

definition or_null :: "string option \<Rightarrow> string option" where
  "or_null v = (if truthy v then v else None)"

definition generic_row_txns :: "(rat \<Rightarrow> string) \<Rightarrow> row \<Rightarrow> bank_txn list" where
  "generic_row_txns String_of_number r =
     (let date = js_or (js_or (js_or (get r ''Date'') (get r ''Transaction Date''))
                     (get r ''Posting Date'')) (get r ''TxnDate'');
          desc = or_empty (js_or (js_or (get r ''Description'') (get r ''Memo'')) (get r ''Details''));
          memo' = or_empty (js_or (get r ''Memo'') (get r ''Notes''));
          amount' = generic_amount String_of_number r;
          balance = or_null (js_or (get r ''Balance'') (get r ''Running Balance''));
          parsedAmt = parseNumber amount'
      in if parsedAmt = 0 then []
         else [\<lparr>external_id = or_null (js_or (get r ''Transaction ID'') (get r ''ID'')),
                 txn_date = (if truthy date then DateOf (or_empty date) else Now),
                 amount = parsedAmt, currency = ''USD'', description = trim desc,
                 memo = trim memo',
                 balance_after = (if truthy balance then Some (parseNumber balance) else None),
                 raw = r\<rparr>])"

text \<open>The list \<open>txns\<close> that \<open>importBankFile\<close> hands to \<open>insertBankTransactions\<close>.\<close>

definition bank_txns :: "(rat \<Rightarrow> string) \<Rightarrow> csv_type \<Rightarrow> row list \<Rightarrow> bank_txn list" where
  "bank_txns String_of_number detectedType rows =
     (if detectedType = bank_batch then concat (map batch_row_txns rows)
      else concat (map (generic_row_txns String_of_number) rows))"

text \<open>
  How the runtime prints a non-negative whole number below \<open>10^21\<close>: its decimal digits.
  Used to instantiate \<open>String_of_number\<close> on concrete rows.
\<close>

function decimal_of_nat :: "nat \<Rightarrow> string" where
  "decimal_of_nat n =
     (if n < 10 then [''0123456789'' ! n]
      else decimal_of_nat (n div 10) @ [''0123456789'' ! (n mod 10)])"
  by pat_completeness auto
termination
  by (relation "measure id") auto

definition string_of_whole :: "rat \<Rightarrow> string" where
  "string_of_whole x = decimal_of_nat (nat \<lfloor>x\<rfloor>)"


section \<open>Purchase-order bills (\<open>parseBillsFromCsv\<close>)\<close>

text \<open>
  The date library is outside the repository. The functions that the code calls are the
  fields of a record: \<open>dj_today\<close> is \<open>dayjs().format('MM/DD/YYYY')\<close>; \<open>dj_strict input fmt\<close>
  is \<open>dayjs(input, fmt, true)\<close>, formatted as \<open>MM/DD/YYYY\<close> when it is valid; \<open>dj_loose\<close>
  is the same for \<open>dayjs(input)\<close>; \<open>dj_add_days s n\<close> is \<open>dayjs(s, 'MM/DD/YYYY')\<close>, moved
  on by \<open>n\<close> days and formatted, when it is valid.
\<close>

text \<open>The exceptions of the importer and of the store.\<close>

datatype error =
    EmptyCsv
  | MissingColumns "string list"
  | NoValidBills
  | NotNullViolation
  | ForeignKeyViolation
  | StatementRejected

record dayjs =
  dj_today :: string
  dj_strict :: "string \<Rightarrow> string \<Rightarrow> string option"
  dj_loose :: "string \<Rightarrow> string option"
  dj_add_days :: "string \<Rightarrow> nat \<Rightarrow> string option"

definition candidates :: "string list" where
  "candidates = [''MM/DD/YYYY h:mm A'', ''MM/DD/YYYY HH:mm'', ''MM/DD/YYYY'', ''M/D/YYYY'',
                 ''M/D/YY'', ''MM-DD-YYYY'', ''YYYY-MM-DD'']"

fun first_some :: "('a \<Rightarrow> 'b option) \<Rightarrow> 'a list \<Rightarrow> 'b option" where
  "first_some f [] = None"
| "first_some f (x # xs) = (case f x of Some y \<Rightarrow> Some y | None \<Rightarrow> first_some f xs)"

definition formatDate :: "dayjs \<Rightarrow> string option \<Rightarrow> string" where
  "formatDate L input =
     (if \<not> truthy input then dj_today L
      else case first_some (dj_strict L (or_empty input)) candidates of
             Some d \<Rightarrow> d
           | None \<Rightarrow> (case dj_loose L (or_empty input) of Some d2 \<Rightarrow> d2 | None \<Rightarrow> dj_today L))"

definition sanitize :: "string \<Rightarrow> string" where
  "sanitize s =
     filter (\<lambda>c. c \<noteq> CHR 0x22)
       (map (\<lambda>c. if c = CHR 0x09 \<or> c = CHR 0x0D \<or> c = CHR 0x0A then CHR '' '' else c) s)"

text \<open>
  \<open>t.match(/^net\s+(\d{1,3})/)\<close>: the captured digits, or \<open>None\<close> when the expression does
  not match.
\<close>

definition net_match :: "string \<Rightarrow> string option" where
  "net_match t =
     (if take 3 t = ''net''
      then (let ws = takeWhile is_space (drop 3 t);
                ds = take 3 (takeWhile is_digit (dropWhile is_space (drop 3 t)))
            in if ws \<noteq> [] \<and> ds \<noteq> [] then Some ds else None)
      else None)"

definition computeDueDate :: "dayjs \<Rightarrow> string \<Rightarrow> string \<Rightarrow> string" where
  "computeDueDate L dateStr terms' =
     (if dateStr = [] then []
      else case net_match (toLowerCase terms') of
             Some ds \<Rightarrow> (case dj_add_days L dateStr (digits_val ds) of
                           Some due \<Rightarrow> due
                         | None \<Rightarrow> dateStr)
           | None \<Rightarrow> dateStr)"

record line =
  item :: string
  line_description :: string
  quantity :: rat
  unit_cost :: rat
  line_amount :: rat

record bill =
  vendor :: string
  ref_num :: string
  bill_date :: string
  total_amount :: rat
  due_date :: string
  terms :: string
  lines :: "line list"

text \<open>\<open>Math.round(x * 100) / 100\<close>; \<open>Math.round\<close> rounds a half towards plus infinity.\<close>

definition round2 :: "rat \<Rightarrow> rat" where
  "round2 x = of_int \<lfloor>x * 100 + 1 / 2\<rfloor> / 100"

text \<open>\<open>Number(s.replace(/[^0-9.-]/g, '')) || 0\<close>.\<close>

definition number_or_zero :: "string \<Rightarrow> rat" where
  "number_or_zero s = (case jsNumber (keep_numeric s) of None \<Rightarrow> 0 | Some n \<Rightarrow> n)"

text \<open>The closure \<open>findActualCol\<close> over the keys of the first record.\<close>

definition findActualCol :: "string list \<Rightarrow> string list \<Rightarrow> string option" where
  "findActualCol ks syns = first_some (\<lambda>syn. find (\<lambda>k. trim (toLowerCase k) = syn) ks) syns"

definition itemSyn :: "string list" where
  "itemSyn = [''item'', ''item code'', ''sku'', ''product'', ''product code'']"

text \<open>
  \<open>key.split('||')\<close>, with the part in progress as accumulator. A key holds the
  separator twice, so the split has at least three parts.
\<close>

fun split_bars :: "string \<Rightarrow> string \<Rightarrow> string list" where
  "split_bars acc [] = [acc]"
| "split_bars acc [c] = [acc @ [c]]"
| "split_bars acc (c # d # cs) =
     (if c = CHR ''|'' \<and> d = CHR ''|'' then acc # split_bars [] cs
      else split_bars (acc @ [c]) (d # cs))"

text \<open>
  The \<open>Map\<close> of the groups, in insertion order: \<open>group_add\<close> is
  \<open>if (!groupMap.has(key)) groupMap.set(key, []); groupMap.get(key).push(row)\<close>.
\<close>

fun group_add :: "string \<Rightarrow> row \<Rightarrow> (string \<times> row list) list \<Rightarrow> (string \<times> row list) list" where
  "group_add k r [] = [(k, [r])]"
| "group_add k r ((k', rs) # g) =
     (if k' = k then (k', rs @ [r]) # g else (k', rs) # group_add k r g)"

definition row_date :: "dayjs \<Rightarrow> row \<Rightarrow> string" where
  "row_date L r =
     formatDate L (js_or (js_or (js_or (js_or (js_or (js_or (get r ''Date'') (get r ''TxnDate''))
        (get r ''Transaction Date'')) (get r ''PO Date'')) (get r ''DocDate'')) (get r ''PODate''))
        (get r ''DATE''))"

definition group_key :: "dayjs \<Rightarrow> string \<Rightarrow> string \<Rightarrow> row \<Rightarrow> string" where
  "group_key L vendorCol refCol r =
     sanitize (or_empty (get r vendorCol)) @ ''||'' @ sanitize (or_empty (get r refCol)) @ ''||''
     @ row_date L r"

fun group_rows :: "dayjs \<Rightarrow> string \<Rightarrow> string \<Rightarrow> (string \<times> row list) list \<Rightarrow> row list
                   \<Rightarrow> (string \<times> row list) list" where
  "group_rows L vendorCol refCol g [] = g"
| "group_rows L vendorCol refCol g (r # rs) =
     (if sanitize (or_empty (get r vendorCol)) = [] \<or> sanitize (or_empty (get r refCol)) = []
      then group_rows L vendorCol refCol g rs
      else group_rows L vendorCol refCol (group_add (group_key L vendorCol refCol r) r g) rs)"

definition row_terms :: "row \<Rightarrow> string" where
  "row_terms r = sanitize (or_empty (js_or (js_or (get r ''Terms'') (get r ''Payment Terms''))
                                       (get r ''Term'')))"

definition inferredTerms :: "row list \<Rightarrow> string" where
  "inferredTerms rs = (case find (\<lambda>t. t \<noteq> []) (map row_terms rs) of Some t \<Rightarrow> t | None \<Rightarrow> [])"

definition make_line :: "string \<Rightarrow> string \<Rightarrow> string \<Rightarrow> row \<Rightarrow> line" where
  "make_line itemCol qtyCol costCol r =
     (let qty = number_or_zero (or_empty (get r qtyCol));
          cost = number_or_zero (or_empty (get r costCol));
          lineAmount = round2 (qty * cost)
      in \<lparr>item = sanitize (or_empty (get r itemCol)),
          line_description = sanitize (or_empty (js_or (get r ''Description'') (get r ''Item Description''))),
          quantity = qty, unit_cost = round2 cost, line_amount = round2 lineAmount\<rparr>)"

text \<open>The running \<open>total\<close> of a group: the sum of the values \<open>lineAmount\<close>.\<close>

definition group_total :: "string \<Rightarrow> string \<Rightarrow> row list \<Rightarrow> rat" where
  "group_total qtyCol costCol rs =
     foldl (\<lambda>total r. total + round2 (number_or_zero (or_empty (get r qtyCol))
                                       * number_or_zero (or_empty (get r costCol)))) 0 rs"

definition make_bill :: "dayjs \<Rightarrow> string \<Rightarrow> string \<Rightarrow> string \<Rightarrow> string \<times> row list \<Rightarrow> bill" where
  "make_bill L itemCol qtyCol costCol g =
     (let parts = split_bars [] (fst g);
          date = parts ! 2;
          terms' = (if inferredTerms (snd g) = [] then ''Due upon receipt'' else inferredTerms (snd g))
      in \<lparr>vendor = parts ! 0, ref_num = parts ! 1, bill_date = date,
          total_amount = round2 (group_total qtyCol costCol (snd g)),
          due_date = computeDueDate L date terms', terms = terms',
          lines = map (make_line itemCol qtyCol costCol) (snd g)\<rparr>)"

definition parseBillsFromCsv :: "dayjs \<Rightarrow> row list \<Rightarrow> error + bill list" where
  "parseBillsFromCsv L records =
     (case records of
        [] \<Rightarrow> Inl EmptyCsv
      | r0 # _ \<Rightarrow>
          (let vendorCol = findActualCol (keys r0) vendorSyn;
               refCol = findActualCol (keys r0) refSyn;
               itemCol = findActualCol (keys r0) itemSyn;
               qtyCol = findActualCol (keys r0) qtySyn;
               costCol = findActualCol (keys r0) costSyn;
               missing = (if vendorCol = None then [''vendor''] else [])
                         @ (if refCol = None then [''refnumber''] else [])
                         @ (if itemCol = None then [''item''] else [])
                         @ (if qtyCol = None then [''qty''] else [])
                         @ (if costCol = None then [''cost''] else [])
           in if missing \<noteq> [] then Inl (MissingColumns missing)
              else (let groupMap = group_rows L (the vendorCol) (the refCol) [] records;
                        bills = map (make_bill L (the itemCol) (the qtyCol) (the costCol)) groupMap
                    in if bills = [] then Inl NoValidBills else Inr bills)))"

section \<open>A calendar to run the model on examples\<close>

text \<open>
  An instance of the date library that reads and writes \<open>MM/DD/YYYY\<close> in the Gregorian
  calendar. Dates are triples of month, day and year.
\<close>

definition is_leap :: "nat \<Rightarrow> bool" where
  "is_leap y = (y mod 4 = 0 \<and> (y mod 100 \<noteq> 0 \<or> y mod 400 = 0))"

definition days_in_month :: "nat \<Rightarrow> nat \<Rightarrow> nat" where
  "days_in_month y m =
     (if m = 2 then (if is_leap y then 29 else 28)
      else if m = 4 \<or> m = 6 \<or> m = 9 \<or> m = 11 then 30 else 31)"

function add_days_mdY :: "nat \<Rightarrow> nat \<times> nat \<times> nat \<Rightarrow> nat \<times> nat \<times> nat" where
  "add_days_mdY n (m, d, y) =
     (if n = 0 \<or> d + n \<le> days_in_month y m then (m, d + n, y)
      else add_days_mdY (n - (days_in_month y m - d + 1))
             (if m < 12 then (m + 1, 1, y) else (1, 1, y + 1)))"
  by pat_completeness auto
termination
  by (relation "measure fst") auto

definition parse_mdY :: "string \<Rightarrow> (nat \<times> nat \<times> nat) option" where
  "parse_mdY s =
     (let m = digits_val (take 2 s); d = digits_val (take 2 (drop 3 s)); y = digits_val (drop 6 s)
      in if length s = 10 \<and> s ! 2 = CHR ''/'' \<and> s ! 5 = CHR ''/''
            \<and> list_all is_digit (take 2 s @ take 2 (drop 3 s) @ drop 6 s)
            \<and> 1 \<le> m \<and> m \<le> 12 \<and> 1 \<le> d \<and> d \<le> days_in_month y m
         then Some (m, d, y) else None)"

definition pad :: "nat \<Rightarrow> nat \<Rightarrow> string" where
  "pad w n = replicate (w - length (decimal_of_nat n)) (CHR ''0'') @ decimal_of_nat n"

definition format_mdY :: "nat \<times> nat \<times> nat \<Rightarrow> string" where
  "format_mdY dt = (case dt of (m, d, y) \<Rightarrow> pad 2 m @ ''/'' @ pad 2 d @ ''/'' @ pad 4 y)"

definition calendar :: dayjs where
  "calendar =
     \<lparr>dj_today = ''01/01/2024'',
      dj_strict = (\<lambda>input fmt. if fmt = ''MM/DD/YYYY'' then map_option format_mdY (parse_mdY input)
                                else None),
      dj_loose = (\<lambda>input. None),
      dj_add_days = (\<lambda>s n. map_option (\<lambda>dt. format_mdY (add_days_mdY n dt)) (parse_mdY s))\<rparr>"


section \<open>The store\<close>

text \<open>
  A table holds its rows in insertion order, each with the value that its \<open>SERIAL\<close> primary
  key took, and the next value of that sequence. Columns hold the values that the code
  writes: time stamps set by the store (\<open>NOW()\<close>) and the scale of \<open>NUMERIC\<close> columns are
  left out. A transaction that is rolled back leaves the store as it was before \<open>BEGIN\<close>.
\<close>

record 'a table =
  tbl_rows :: "(nat \<times> 'a) list"
  tbl_next :: nat

definition empty_table :: "'a table" where
  "empty_table = \<lparr>tbl_rows = [], tbl_next = 1\<rparr>"

text \<open>\<open>INSERT ... RETURNING id\<close>.\<close>

definition insert_row :: "'a \<Rightarrow> 'a table \<Rightarrow> 'a table \<times> nat" where
  "insert_row x t = (\<lparr>tbl_rows = tbl_rows t @ [(tbl_next t, x)], tbl_next = Suc (tbl_next t)\<rparr>,
                     tbl_next t)"

text \<open>\<open>SELECT ... WHERE p\<close> followed by \<open>rows[0]\<close>.\<close>

definition select_first :: "('a \<Rightarrow> bool) \<Rightarrow> 'a table \<Rightarrow> (nat \<times> 'a) option" where
  "select_first p t = find (\<lambda>(i, x). p x) (tbl_rows t)"

text \<open>\<open>UPDATE ... SET ... WHERE id = i\<close>.\<close>

definition update_id :: "nat \<Rightarrow> ('a \<Rightarrow> 'a) \<Rightarrow> 'a table \<Rightarrow> 'a table" where
  "update_id i f t = t\<lparr>tbl_rows := map (\<lambda>(j, x). if j = i then (j, f x) else (j, x)) (tbl_rows t)\<rparr>"

text \<open>\<open>DELETE ... WHERE p\<close>.\<close>

definition delete_where :: "('a \<Rightarrow> bool) \<Rightarrow> 'a table \<Rightarrow> 'a table" where
  "delete_where p t = t\<lparr>tbl_rows := filter (\<lambda>(i, x). \<not> p x) (tbl_rows t)\<rparr>"

record source_row =
  src_name :: string
  src_type :: string

record import_meta_row =
  im_source_id :: nat
  im_import_type :: string
  im_original_filename :: "string option"
  im_content_type :: "string option"
  im_row_count :: nat
  im_raw_headers :: "string list"
  im_sample :: "row list"

record import_record_row =
  ir_import_metadata_id :: nat
  ir_external_id :: "string option"
  ir_checksum :: "string option"
  ir_raw :: row

record csv_import_row =
  ci_filename :: string
  ci_csv_content :: string
  ci_file_size :: nat
  ci_processed :: bool
  ci_checksum :: string

record transaction_row =
  tr_csv_import_id :: nat
  tr_vendor :: string
  tr_ref_number :: string
  tr_transaction_date :: string
  tr_total_amount :: rat
  tr_payment_terms :: string
  tr_due_date :: string

record line_item_row =
  li_transaction_id :: nat
  li_item_name :: string
  li_description :: string
  li_quantity :: rat
  li_unit_cost :: rat
  li_line_amount :: rat

record inventory_row =
  inv_item_name :: string
  inv_description :: string
  inv_current_quantity :: rat
  inv_total_received :: rat
  inv_total_cost :: rat
  inv_average_unit_cost :: rat
  inv_last_transaction_date :: string
  inv_last_vendor :: string

record inv_txn_row =
  it_item_id :: nat
  it_transaction_id :: nat
  it_transaction_type :: string
  it_quantity :: rat
  it_unit_cost :: rat
  it_total_cost :: rat
  it_vendor :: string
  it_ref_number :: string
  it_transaction_date :: string
  it_notes :: string

record customer_row =
  cu_source_id :: nat
  cu_external_id :: "string option"
  cu_name :: string
  cu_email :: "string option"
  cu_address :: "string option"

record catalog_item_row =
  cat_source_id :: nat
  cat_item_code :: string

record invoice_row =
  iv_source_id :: nat
  iv_external_id :: "string option"
  iv_number :: "string option"
  iv_customer_id :: "nat option"
  iv_invoice_date :: "string option"
  iv_due_date :: "string option"
  iv_status :: "string option"
  iv_currency :: string
  iv_subtotal :: "rat option"
  iv_tax_total :: "rat option"
  iv_total :: "rat option"
  iv_balance :: "rat option"

record invoice_line_row =
  il_invoice_id :: nat
  il_item_id :: "nat option"
  il_description :: "string option"
  il_quantity :: "rat option"
  il_unit_price :: "rat option"
  il_tax_code :: "string option"
  il_line_total :: "rat option"

record bank_row =
  br_source_id :: nat
  br_external_id :: "string option"
  br_txn_date :: js_date
  br_amount :: rat
  br_currency :: string
  br_description :: "string option"
  br_memo :: "string option"
  br_balance_after :: "rat option"

record ledger_row =
  lt_source_id :: nat
  lt_external_id :: "string option"
  lt_txn_type :: string
  lt_txn_date :: js_date
  lt_amount :: rat
  lt_currency :: string
  lt_description :: "string option"
  lt_counterparty :: "string option"
  lt_status :: "string option"
  lt_raw :: row

record link_row =
  ll_ledger_transaction_id :: nat
  ll_entity_type :: string
  ll_entity_id :: string
  ll_match_status :: string
  ll_confidence :: rat

record db =
  ledger_sources :: "source_row table"
  import_metadata :: "import_meta_row table"
  import_records :: "import_record_row table"
  csv_imports :: "csv_import_row table"
  transactions :: "transaction_row table"
  line_items :: "line_item_row table"
  inventory :: "inventory_row table"
  inventory_transactions :: "inv_txn_row table"
  customers :: "customer_row table"
  catalog_items :: "catalog_item_row table"
  invoices :: "invoice_row table"
  invoice_lines :: "invoice_line_row table"
  bank_transactions :: "bank_row table"
  ledger_transactions :: "ledger_row table"
  ledger_links :: "link_row table"

definition empty_db :: db where
  "empty_db = \<lparr>ledger_sources = empty_table, import_metadata = empty_table,
     import_records = empty_table, csv_imports = empty_table, transactions = empty_table,
     line_items = empty_table, inventory = empty_table, inventory_transactions = empty_table,
     customers = empty_table, catalog_items = empty_table, invoices = empty_table,
     invoice_lines = empty_table, bank_transactions = empty_table,
     ledger_transactions = empty_table, ledger_links = empty_table\<rparr>"

text \<open>\<open>s || null\<close> on a string and \<open>n || null\<close> on a number.\<close>

definition str_or_null :: "string \<Rightarrow> string option" where
  "str_or_null s = (if s = [] then None else Some s)"

definition num_or_null :: "rat option \<Rightarrow> rat option" where
  "num_or_null v = (case v of None \<Rightarrow> None | Some n \<Rightarrow> if n = 0 then None else Some n)"

definition getOrCreateSource :: "db \<Rightarrow> string \<Rightarrow> db \<times> nat" where
  "getOrCreateSource d name' =
     (case select_first (\<lambda>s. src_name s = name') (ledger_sources d) of
        Some (i, _) \<Rightarrow> (d, i)
      | None \<Rightarrow>
          (let (t, i) = insert_row \<lparr>src_name = name', src_type = ''csv''\<rparr> (ledger_sources d)
           in (d\<lparr>ledger_sources := t\<rparr>, i)))"

section \<open>File-level deduplication (\<open>importPoBills\<close>, \<open>storeCsvImport\<close>)\<close>

text \<open>
  The digests are those of the runtime's \<open>crypto\<close> module: \<open>md5\<close> is
  \<open>generateChecksum\<close> on the content of a file and \<open>hashRow\<close> the digest of the JSON text
  of a row. Both are parameters.
\<close>

record import_meta =
  original_filename :: "string option"
  content_type :: "string option"
  row_count :: nat
  raw_headers :: "string list"
  sample :: "row list"

definition createImportMetadata :: "db \<Rightarrow> string \<Rightarrow> string \<Rightarrow> import_meta \<Rightarrow> db \<times> nat" where
  "createImportMetadata d sourceName importType meta =
     (let (d1, sourceId) = getOrCreateSource d sourceName;
          (t, i) = insert_row
                     \<lparr>im_source_id = sourceId, im_import_type = importType,
                      im_original_filename = original_filename meta,
                      im_content_type = content_type meta, im_row_count = row_count meta,
                      im_raw_headers = raw_headers meta, im_sample = sample meta\<rparr>
                     (import_metadata d1)
      in (d1\<lparr>import_metadata := t\<rparr>, i))"

text \<open>
  \<open>addImportRecords\<close>; a record is the triple of \<open>external_id\<close>, \<open>checksum\<close> and \<open>raw\<close>.
\<close>

definition addImportRecords :: "db \<Rightarrow> nat \<Rightarrow> (string option \<times> string \<times> row) list \<Rightarrow> db" where
  "addImportRecords d importMetadataId records =
     d\<lparr>import_records :=
         foldl (\<lambda>t (ext, sum, r).
                  fst (insert_row \<lparr>ir_import_metadata_id = importMetadataId,
                                    ir_external_id = or_null ext,
                                    ir_checksum = str_or_null sum, ir_raw = r\<rparr> t))
               (import_records d) records\<rparr>"

record store_result =
  sr_id :: nat
  sr_isDuplicate :: bool
  sr_alreadyProcessed :: bool
  sr_message :: string

text \<open>
  \<open>storeCsvImport\<close>. The file name may be \<open>undefined\<close>, which the \<open>NOT NULL\<close> column
  refuses; the size is the number of bytes of the content.
\<close>

definition storeCsvImport ::
    "(string \<Rightarrow> string) \<Rightarrow> db \<Rightarrow> string option \<Rightarrow> string \<Rightarrow> db \<times> (error + store_result)" where
  "storeCsvImport md5 d filename csvContent =
     (let checksum = md5 csvContent; fileSize = length csvContent
      in case select_first (\<lambda>r. ci_checksum r = checksum) (csv_imports d) of
           Some (i, r) \<Rightarrow>
             (d, Inr \<lparr>sr_id = i, sr_isDuplicate = True, sr_alreadyProcessed = ci_processed r,
                      sr_message = (if ci_processed r then ''CSV already imported and processed''
                                    else ''CSV already imported but not processed'')\<rparr>)
         | None \<Rightarrow>
             (case filename of
                None \<Rightarrow> (d, Inl NotNullViolation)
              | Some f \<Rightarrow>
                  (let (t, i) = insert_row
                                  \<lparr>ci_filename = f, ci_csv_content = csvContent,
                                   ci_file_size = fileSize, ci_processed = False,
                                   ci_checksum = checksum\<rparr> (csv_imports d)
                   in (d\<lparr>csv_imports := t\<rparr>,
                       Inr \<lparr>sr_id = i, sr_isDuplicate = False, sr_alreadyProcessed = False,
                            sr_message = ''CSV imported successfully''\<rparr>))))"

text \<open>
  The two objects that \<open>importPoBills\<close> returns: \<open>Duplicate error importId\<close> is
  \<open>{error, isDuplicate: true, importId, detectedType}\<close>, and
  \<open>Parsed bills filePath importId import_meta_id\<close> is the object with \<open>isDuplicate: false\<close>.
\<close>

datatype import_result =
    Duplicate string nat
  | Parsed "bill list" "string option" nat nat

definition isDuplicate :: "import_result \<Rightarrow> bool" where
  "isDuplicate res = (case res of Duplicate _ _ \<Rightarrow> True | Parsed _ _ _ _ \<Rightarrow> False)"

text \<open>
  \<open>importPoBills\<close>. \<open>rows\<close> are the records of \<open>content\<close>, which the source parses once
  in \<open>importFile\<close> and again in \<open>parseBillsFromCsv\<close>.
\<close>

definition importPoBills ::
    "(string \<Rightarrow> string) \<Rightarrow> (row \<Rightarrow> string) \<Rightarrow> dayjs \<Rightarrow> db \<Rightarrow> string \<Rightarrow> string option
     \<Rightarrow> string option \<Rightarrow> row list \<Rightarrow> db \<times> (error + import_result)" where
  "importPoBills md5 hashRow L d content filename mimetype rows =
     (let (d1, metaId) = createImportMetadata d ''LocalCSV'' ''po_bills''
             \<lparr>original_filename = filename,
              content_type = Some (if truthy mimetype then or_empty mimetype else ''text/csv''),
              row_count = length rows,
              raw_headers = (case rows of [] \<Rightarrow> [] | r # _ \<Rightarrow> keys r),
              sample = take 5 rows\<rparr>;
          d2 = addImportRecords d1 metaId
                 (map (\<lambda>r. (js_or (get r ''RefNumber'') (get r ''Ref Number''), hashRow r, r)) rows)
      in case storeCsvImport md5 d2 filename content of
           (d3, Inl e) \<Rightarrow> (d3, Inl e)
         | (d3, Inr importResult) \<Rightarrow>
             if sr_isDuplicate importResult
             then (d3, Inr (Duplicate (sr_message importResult) (sr_id importResult)))
             else (case parseBillsFromCsv L rows of
                     Inl e \<Rightarrow> (d3, Inl e)
                   | Inr bills \<Rightarrow> (d3, Inr (Parsed bills filename (sr_id importResult) metaId))))"

section \<open>Inventory costing (\<open>processCsvImport\<close>)\<close>




section \<open>Bank transactions in the ledger (\<open>insertBankTransactions\<close>)\<close>

text \<open>
  \<open>ON CONFLICT (source_id, external_id) DO NOTHING\<close>: the unique constraint is violated
  by a row of the same source with the same external id; a null external id never
  conflicts.
\<close>

definition bank_conflict :: "nat \<Rightarrow> string option \<Rightarrow> bank_row table \<Rightarrow> bool" where
  "bank_conflict sourceId externalId t =
     (externalId \<noteq> None
      \<and> list_ex (\<lambda>(i, x). br_source_id x = sourceId \<and> br_external_id x = externalId) (tbl_rows t))"

definition ledger_conflict :: "nat \<Rightarrow> string option \<Rightarrow> ledger_row table \<Rightarrow> bool" where
  "ledger_conflict sourceId externalId t =
     (externalId \<noteq> None
      \<and> list_ex (\<lambda>(i, x). lt_source_id x = sourceId \<and> lt_external_id x = externalId) (tbl_rows t))"

text \<open>
  One turn of the loop of \<open>insertBankTransactions\<close>, for a statement that the store
  accepts. \<open>txn_external_id\<close> is \<open>t.external_id || null\<close>. The \<open>status\<close> of a candidate
  from a CSV file is \<open>undefined\<close>.
\<close>

definition txn_external_id :: "bank_txn \<Rightarrow> string option" where
  "txn_external_id t = (case external_id t of None \<Rightarrow> None | Some e \<Rightarrow> str_or_null e)"

definition insert_bank_txn :: "nat \<Rightarrow> db \<Rightarrow> bank_txn \<Rightarrow> db" where
  "insert_bank_txn sourceId d t =
     (let externalId = txn_external_id t;
          (d1, bankId) =
             (if bank_conflict sourceId externalId (bank_transactions d) then (d, None)
              else (let (tb, i) = insert_row
                          \<lparr>br_source_id = sourceId, br_external_id = externalId,
                           br_txn_date = txn_date t, br_amount = amount t,
                           br_currency = (if currency t = [] then ''USD'' else currency t),
                           br_description = str_or_null (description t),
                           br_memo = str_or_null (memo t),
                           br_balance_after = num_or_null (balance_after t)\<rparr>
                          (bank_transactions d)
                    in (d\<lparr>bank_transactions := tb\<rparr>, Some i)));
          (d2, ltId) =
             (if ledger_conflict sourceId externalId (ledger_transactions d1) then (d1, None)
              else (let (tl, i) = insert_row
                          \<lparr>lt_source_id = sourceId, lt_external_id = externalId,
                           lt_txn_type = ''bank_txn'', lt_txn_date = txn_date t,
                           lt_amount = amount t,
                           lt_currency = (if currency t = [] then ''USD'' else currency t),
                           lt_description = (if description t \<noteq> [] then Some (description t)
                                             else str_or_null (memo t)),
                           lt_counterparty = None, lt_status = None, lt_raw = raw t\<rparr>
                          (ledger_transactions d1)
                    in (d1\<lparr>ledger_transactions := tl\<rparr>, Some i)))
      in case (bankId, ltId) of
           (Some b, Some l) \<Rightarrow>
             d2\<lparr>ledger_links := fst (insert_row
                    \<lparr>ll_ledger_transaction_id = l, ll_entity_type = ''bank_txn'',
                     ll_entity_id = decimal_of_nat b, ll_match_status = ''matched'',
                     ll_confidence = 1\<rparr> (ledger_links d2))\<rparr>
         | _ \<Rightarrow> d2)"

text \<open>
  The loop inside the transaction. \<open>rejects t\<close> says that the store refuses the insertion
  of \<open>t\<close> (a date it cannot read, a number out of the column's range); the exception
  leaves the loop.
\<close>

fun insert_bank_loop :: "(bank_txn \<Rightarrow> bool) \<Rightarrow> nat \<Rightarrow> db \<Rightarrow> bank_txn list \<Rightarrow> error + db" where
  "insert_bank_loop rejects sourceId d [] = Inr d"
| "insert_bank_loop rejects sourceId d (t # ts) =
     (if rejects t then Inl StatementRejected
      else insert_bank_loop rejects sourceId (insert_bank_txn sourceId d t) ts)"

text \<open>
  \<open>insertBankTransactions\<close>: the source is resolved before \<open>BEGIN\<close>, so it stays when
  the transaction is rolled back. The result is the store and either the exception or
  the field \<open>count\<close> of the returned object.
\<close>

definition insertBankTransactions ::
    "(bank_txn \<Rightarrow> bool) \<Rightarrow> db \<Rightarrow> string \<Rightarrow> bank_txn list \<Rightarrow> db \<times> (error + nat)" where
  "insertBankTransactions rejects d sourceName txns =
     (let (d0, sourceId) = getOrCreateSource d sourceName
      in case insert_bank_loop rejects sourceId d0 txns of
           Inl e \<Rightarrow> (d0, Inl e)
         | Inr d' \<Rightarrow> (d', Inr (length txns)))"

section \<open>Invoices (\<open>upsertInvoiceWithLines\<close>)\<close>

text \<open>
  The objects that \<open>importHaloInvoices\<close> hands to \<open>upsertInvoiceWithLines\<close>; a field that
  may be \<open>null\<close> is an option.
\<close>

record customer =
  c_external_id :: "string option"
  c_name :: "string option"
  c_email :: "string option"
  c_address :: "string option"

record invoice =
  i_external_id :: "string option"
  i_number :: "string option"
  i_invoice_date :: "string option"
  i_due_date :: "string option"
  i_status :: "string option"
  i_currency :: string
  i_subtotal :: "rat option"
  i_tax_total :: "rat option"
  i_total :: "rat option"
  i_balance :: "rat option"
  i_customer :: "customer option"
  i_raw :: row

record invoice_line =
  l_item_code :: "string option"
  l_description :: "string option"
  l_quantity :: "rat option"
  l_unit_price :: "rat option"
  l_tax_code :: "string option"
  l_line_total :: "rat option"

text \<open>
  \<open>upsertCustomer\<close>, on a connection of its own. The resolution of the client and of the
  tenant writes tables that are left out; a customer without a name fails on the
  \<open>NOT NULL\<close> constraint of \<open>name\<close>. \<open>ON CONFLICT (source_id, external_id) DO UPDATE\<close>
  updates the row of the same source and external id, if there is one.
\<close>

definition upsertCustomer :: "db \<Rightarrow> string \<Rightarrow> customer \<Rightarrow> db \<times> (error + nat)" where
  "upsertCustomer d sourceName c =
     (let (d0, sourceId) = getOrCreateSource d sourceName
      in case c_name c of
           None \<Rightarrow> (d0, Inl NotNullViolation)
         | Some n \<Rightarrow>
             (let ext = or_null (c_external_id c);
                  new = \<lparr>cu_source_id = sourceId, cu_external_id = ext, cu_name = n,
                         cu_email = or_null (c_email c), cu_address = or_null (c_address c)\<rparr>
              in case (if ext = None then None
                       else select_first (\<lambda>r. cu_source_id r = sourceId \<and> cu_external_id r = ext)
                              (customers d0)) of
                   Some (i, _) \<Rightarrow>
                     (d0\<lparr>customers := update_id i
                            (\<lambda>x. x\<lparr>cu_name := n, cu_email := or_null (c_email c),
                                    cu_address := or_null (c_address c)\<rparr>) (customers d0)\<rparr>,
                      Inr i)
                 | None \<Rightarrow>
                     (let (t, i) = insert_row new (customers d0)
                      in (d0\<lparr>customers := t\<rparr>, Inr i))))"

text \<open>The row that the loop over \<open>lines\<close> inserts for a line.\<close>

definition invoice_line_row :: "catalog_item_row table \<Rightarrow> nat \<Rightarrow> nat \<Rightarrow> invoice_line \<Rightarrow> invoice_line_row" where
  "invoice_line_row catalog sourceId invoiceId l =
     \<lparr>il_invoice_id = invoiceId,
      il_item_id =
        (if truthy (l_item_code l)
         then map_option fst
                (select_first (\<lambda>r. cat_source_id r = sourceId
                                  \<and> cat_item_code r = or_empty (l_item_code l)) catalog)
         else None),
      il_description = or_null (l_description l),
      il_quantity = num_or_null (l_quantity l),
      il_unit_price = num_or_null (l_unit_price l),
      il_tax_code = or_null (l_tax_code l),
      il_line_total = num_or_null (l_line_total l)\<rparr>"

text \<open>
  The columns that \<open>INSERT INTO invoices ... ON CONFLICT ... DO UPDATE\<close> sets on a row
  that exists.
\<close>

definition invoice_update :: "invoice \<Rightarrow> nat option \<Rightarrow> invoice_row \<Rightarrow> invoice_row" where
  "invoice_update iv customerId x =
     x\<lparr>iv_number := or_null (i_number iv), iv_customer_id := customerId,
       iv_invoice_date := or_null (i_invoice_date iv), iv_due_date := or_null (i_due_date iv),
       iv_status := or_null (i_status iv),
       iv_currency := (if i_currency iv = [] then ''USD'' else i_currency iv),
       iv_subtotal := num_or_null (i_subtotal iv), iv_tax_total := num_or_null (i_tax_total iv),
       iv_total := num_or_null (i_total iv), iv_balance := num_or_null (i_balance iv)\<rparr>"

text \<open>
  \<open>upsertInvoiceWithLines\<close>, statement by statement. \<open>resolve_customer\<close> is
  \<open>invoice.customer ? await this.upsertCustomer(sourceName, invoice.customer) : null\<close>.
\<close>

definition resolve_customer :: "db \<Rightarrow> string \<Rightarrow> invoice \<Rightarrow> db \<times> (error + nat option)" where
  "resolve_customer d sourceName iv =
     (case i_customer iv of
        None \<Rightarrow> (d, Inr None)
      | Some c \<Rightarrow> (case upsertCustomer d sourceName c of
                     (d1, Inl e) \<Rightarrow> (d1, Inl e)
                   | (d1, Inr i) \<Rightarrow> (d1, Inr (Some i))))"

text \<open>
  \<open>INSERT INTO invoices ... ON CONFLICT (source_id, external_id) DO UPDATE ... RETURNING id\<close>.
  A null external id never conflicts.
\<close>

definition upsert_invoice_row :: "nat \<Rightarrow> invoice \<Rightarrow> nat option \<Rightarrow> db \<Rightarrow> db \<times> nat" where
  "upsert_invoice_row sourceId iv customerId d =
     (let ext = or_null (i_external_id iv)
      in case (if ext = None then None
               else select_first (\<lambda>r. iv_source_id r = sourceId \<and> iv_external_id r = ext)
                      (invoices d)) of
           Some (i, _) \<Rightarrow>
             (d\<lparr>invoices := update_id i (invoice_update iv customerId) (invoices d)\<rparr>, i)
         | None \<Rightarrow>
             (let (t, i) = insert_row
                    (invoice_update iv customerId
                       \<lparr>iv_source_id = sourceId, iv_external_id = ext, iv_number = None,
                        iv_customer_id = None, iv_invoice_date = None,
                        iv_due_date = None, iv_status = None, iv_currency = ''USD'',
                        iv_subtotal = None, iv_tax_total = None, iv_total = None,
                        iv_balance = None\<rparr>) (invoices d)
              in (d\<lparr>invoices := t\<rparr>, i)))"

text \<open>
  \<open>DELETE FROM invoice_lines WHERE invoice_id = $1\<close>, then the loop that inserts the new
  lines.
\<close>

definition replace_lines :: "nat \<Rightarrow> nat \<Rightarrow> invoice_line list \<Rightarrow> db \<Rightarrow> db" where
  "replace_lines sourceId invoiceId lines' d =
     d\<lparr>invoice_lines :=
         foldl (\<lambda>t l. fst (insert_row (invoice_line_row (catalog_items d) sourceId invoiceId l) t))
           (delete_where (\<lambda>r. il_invoice_id r = invoiceId) (invoice_lines d)) lines'\<rparr>"

text \<open>The projection of the invoice into \<open>ledger_transactions\<close>, \<open>ON CONFLICT DO NOTHING\<close>.\<close>

definition record_invoice_ledger :: "nat \<Rightarrow> invoice \<Rightarrow> db \<Rightarrow> db" where
  "record_invoice_ledger sourceId iv d =
     (let lext = or_null (js_or (i_external_id iv) (i_number iv))
      in if ledger_conflict sourceId lext (ledger_transactions d) then d
         else d\<lparr>ledger_transactions := fst (insert_row
                  \<lparr>lt_source_id = sourceId, lt_external_id = lext, lt_txn_type = ''invoice'',
                   lt_txn_date =
                     (if truthy (js_or (i_invoice_date iv) (i_due_date iv))
                      then DateOf (or_empty (js_or (i_invoice_date iv) (i_due_date iv)))
                      else Now),
                   lt_amount = (case num_or_null (i_total iv) of None \<Rightarrow> 0 | Some a \<Rightarrow> a),
                   lt_currency = (if i_currency iv = [] then ''USD'' else i_currency iv),
                   lt_description = Some (''Invoice '' @ or_empty (i_number iv)),
                   lt_counterparty =
                     (case i_customer iv of None \<Rightarrow> None | Some c \<Rightarrow> or_null (c_name c)),
                   lt_status = or_null (i_status iv), lt_raw = i_raw iv\<rparr>
                  (ledger_transactions d))\<rparr>)"

text \<open>
  The customer is resolved on another connection, so its rows stay when the
  transaction is rolled back; after that no statement of the transaction can fail in
  this model.
\<close>

definition upsertInvoiceWithLines ::
    "db \<Rightarrow> string \<Rightarrow> invoice \<Rightarrow> invoice_line list \<Rightarrow> db \<times> (error + nat)" where
  "upsertInvoiceWithLines d sourceName iv lines' =
     (let (d0, sourceId) = getOrCreateSource d sourceName
      in case resolve_customer d0 sourceName iv of
           (d1, Inl e) \<Rightarrow> (d1, Inl e)
         | (d1, Inr customerId) \<Rightarrow>
             (let (d2, invoiceId) = upsert_invoice_row sourceId iv customerId d1;
                  d3 = replace_lines sourceId invoiceId lines' d2;
                  d4 = record_invoice_ledger sourceId iv d3
              in (d4, Inr invoiceId)))"

text \<open>The stored lines of an invoice.\<close>

definition lines_of :: "nat \<Rightarrow> db \<Rightarrow> (nat \<times> invoice_line_row) list" where
  "lines_of invoiceId d = filter (\<lambda>(i, r). il_invoice_id r = invoiceId) (tbl_rows (invoice_lines d))"

section \<open>Invariants and examples\<close>

text \<open>
  The primary key of a table: the ids are distinct and below the next value of the
  sequence.
\<close>

definition wf_table :: "'a table \<Rightarrow> bool" where
  "wf_table t \<longleftrightarrow> distinct (map fst (tbl_rows t)) \<and> (\<forall>i\<in>fst ` set (tbl_rows t). i < tbl_next t)"


text \<open>
  A purchase-order file of two rows, and digests to run the importer on it: any
  function does, since equal contents have equal digests.
\<close>

definition sample_rows :: "row list" where
  "sample_rows =
     [[(''Vendor'', ''Acme''), (''RefNumber'', ''PO-1''), (''Date'', ''01/05/2024''),
       (''Item'', ''Widget''), (''Qty'', ''10''), (''Cost'', ''2.50'')],
      [(''Vendor'', ''Acme''), (''RefNumber'', ''PO-1''), (''Date'', ''01/05/2024''),
       (''Item'', ''Gadget''), (''Qty'', ''2''), (''Cost'', ''5.00'')]]"

definition sample_csv :: string where
  "sample_csv = ''Vendor,RefNumber,Date,Item,Qty,Cost'' @ [CHR 0x0A]
     @ ''Acme,PO-1,01/05/2024,Widget,10,2.50'' @ [CHR 0x0A]
     @ ''Acme,PO-1,01/05/2024,Gadget,2,5.00'' @ [CHR 0x0A]"

definition sample_md5 :: "string \<Rightarrow> string" where
  "sample_md5 s = s"

definition sample_hashRow :: "row \<Rightarrow> string" where
  "sample_hashRow r = concat (map snd r)"

definition sample_import :: "db \<Rightarrow> db \<times> (error + import_result)" where
  "sample_import d = importPoBills sample_md5 sample_hashRow calendar d sample_csv
                       (Some ''po.csv'') (Some ''text/csv'') sample_rows"





text \<open>An invoice with its customer, imported twice with different lines.\<close>

definition sample_invoice :: invoice where
  "sample_invoice =
     \<lparr>i_external_id = Some ''INV-1'', i_number = Some ''1001'', i_invoice_date = Some ''2024-01-05'',
      i_due_date = None, i_status = Some ''Sent'', i_currency = ''USD'', i_subtotal = Some 100,
      i_tax_total = None, i_total = Some 100, i_balance = None,
      i_customer = Some \<lparr>c_external_id = Some ''C1'', c_name = Some ''Acme'', c_email = None,
                          c_address = None\<rparr>,
      i_raw = []\<rparr>"

definition sample_line :: "string \<Rightarrow> rat \<Rightarrow> invoice_line" where
  "sample_line what price =
     \<lparr>l_item_code = None, l_description = Some what, l_quantity = Some 1,
      l_unit_price = Some price, l_tax_code = None, l_line_total = Some price\<rparr>"

definition first_upsert :: "db \<times> (error + nat)" where
  "first_upsert = upsertInvoiceWithLines empty_db ''HaloPSA'' sample_invoice
                    [sample_line ''Setup'' 60, sample_line ''Licence'' 40]"

definition second_upsert :: "db \<times> (error + nat)" where
  "second_upsert = upsertInvoiceWithLines (fst first_upsert) ''HaloPSA'' sample_invoice
                     [sample_line ''Labour'' 100]"

section \<open>Interchange serialiser (\<open>generateBillsIif\<close>, \<open>generateIif\<close>)\<close>













text \<open>A string without tab, carriage return, line feed or double quote.\<close>

definition delimiter_free :: "string \<Rightarrow> bool" where
  "delimiter_free s \<longleftrightarrow> list_all (\<lambda>c. c \<noteq> CHR 0x09 \<and> c \<noteq> CHR 0x0D \<and> c \<noteq> CHR 0x0A \<and> c \<noteq> CHR 0x22) s"


text \<open>
  Two rows of different vendors and references whose keys
  \<open>vendor||reference||date\<close> are the same string.
\<close>

definition collide_rows :: "row list" where
  "collide_rows =
     [[(''Vendor'', ''A||B''), (''RefNumber'', ''C''), (''Date'', ''01/05/2024''),
       (''Item'', ''Widget''), (''Qty'', ''10''), (''Cost'', ''2.50'')],
      [(''Vendor'', ''A''), (''RefNumber'', ''B||C''), (''Date'', ''01/05/2024''),
       (''Item'', ''Gadget''), (''Qty'', ''2''), (''Cost'', ''5.00'')]]"


section \<open>Properties of the classifier\<close>









lemma includes_str_iff: "includes_str s sub \<longleftrightarrow> (\<exists>pre post. s = pre @ sub @ post)"
proof (induction s)
  case Nil
  then show ?case by auto
next
  case (Cons c cs)
  show ?case
  proof
    assume "includes_str (c # cs) sub"
    then consider "prefix sub (c # cs)" | "includes_str cs sub" by auto
    then show "\<exists>pre post. c # cs = pre @ sub @ post"
    proof cases
      case 1
      then obtain post where "c # cs = sub @ post" by (auto simp: prefix_def)
      then have "c # cs = [] @ sub @ post" by simp
      then show ?thesis by blast
    next
      case 2
      with Cons.IH obtain pre post where "cs = pre @ sub @ post" by blast
      then have "c # cs = (c # pre) @ sub @ post" by simp
      then show ?thesis by blast
    qed
  next
    assume "\<exists>pre post. c # cs = pre @ sub @ post"
    then obtain pre post where eq: "c # cs = pre @ sub @ post" by blast
    show "includes_str (c # cs) sub"
    proof (cases pre)
      case Nil
      with eq have "prefix sub (c # cs)" by (simp add: prefix_def)
      then show ?thesis by simp
    next
      case (Cons p ps)
      with eq have "cs = ps @ sub @ post" by simp
      with Cons.IH have "includes_str cs sub" by blast
      then show ?thesis by simp
    qed
  qed
qed



section \<open>Properties of the bank transaction normaliser\<close>

text \<open>
  The amount that a \<open>bank_generic\<close> row resolves to, read off the source: the
  \<open>Amount\<close> cell when it is not empty, else the \<open>Credit\<close> cell, else minus the absolute
  value of the \<open>Debit\<close> cell, else the lower-case \<open>amount\<close> cell.
\<close>

definition resolved_amount :: "row \<Rightarrow> rat" where
  "resolved_amount r =
     (if truthy (get r ''Amount'') then parseNumber (get r ''Amount'')
      else if truthy (get r ''Credit'') then parseNumber (get r ''Credit'')
      else if truthy (get r ''Debit'') then - \<bar>parseNumber (get r ''Debit'')\<bar>
      else parseNumber (get r ''amount''))"

lemma truthy_js_or: "truthy (js_or a b) \<longleftrightarrow> truthy a \<or> truthy b"
  by (simp add: js_or_def)

text \<open>
  C4, as the code has it. A batch row with a positive debit and no positive credit gives
  exactly one transaction, with the debit negated; a row with both gives the credit first
  and the debit second; a row with neither gives none. The synthetic ids are
  \<open>ref-CR\<close> and \<open>ref-DR\<close> when the row has a reference number, and null otherwise.
\<close>

theorem batch_row_txns_split:
  "(0 < batch_dr r \<and> \<not> 0 < batch_cr r \<longrightarrow>
      map amount (batch_row_txns r) = [- batch_dr r]
      \<and> map external_id (batch_row_txns r)
          = [if batch_ref r = [] then None else Some (batch_ref r @ ''-DR'')])
   \<and> (0 < batch_dr r \<and> 0 < batch_cr r \<longrightarrow>
      map amount (batch_row_txns r) = [batch_cr r, - batch_dr r]
      \<and> map external_id (batch_row_txns r)
          = [if batch_ref r = [] then None else Some (batch_ref r @ ''-CR''),
             if batch_ref r = [] then None else Some (batch_ref r @ ''-DR'')])
   \<and> (\<not> 0 < batch_dr r \<and> 0 < batch_cr r \<longrightarrow>
      map amount (batch_row_txns r) = [batch_cr r]
      \<and> map external_id (batch_row_txns r)
          = [if batch_ref r = [] then None else Some (batch_ref r @ ''-CR'')])
   \<and> (\<not> 0 < batch_dr r \<and> \<not> 0 < batch_cr r \<longrightarrow> batch_row_txns r = [])"
  by (simp add: batch_row_txns_def Let_def)

theorem batch_row_txns_split_witness:
  "map amount (batch_row_txns [(''Reference Number'', ''R1''), (''DR Amount'', ''50''),
                               (''CR Amount'', ''0'')]) = [- 50]
   \<and> map external_id (batch_row_txns [(''Reference Number'', ''R1''), (''DR Amount'', ''50''),
                                       (''CR Amount'', ''0'')]) = [Some ''R1-DR'']
   \<and> map amount (batch_row_txns [(''Reference Number'', ''R1''), (''DR Amount'', ''50''),
                                 (''CR Amount'', ''30'')]) = [30, - 50]
   \<and> map external_id (batch_row_txns [(''Reference Number'', ''R1''), (''DR Amount'', ''50''),
                                       (''CR Amount'', ''30'')]) = [Some ''R1-CR'', Some ''R1-DR'']
   \<and> batch_row_txns [(''Reference Number'', ''R1''), (''DR Amount'', ''''), (''CR Amount'', ''0.00'')] = []"
proof -
  let ?a = "[(''Reference Number'', ''R1''), (''DR Amount'', ''50''), (''CR Amount'', ''0'')]"
  let ?b = "[(''Reference Number'', ''R1''), (''DR Amount'', ''50''), (''CR Amount'', ''30'')]"
  let ?c = "[(''Reference Number'', ''R1''), (''DR Amount'', ''''), (''CR Amount'', ''0.00'')]"
  have a: "batch_dr ?a = 50" "batch_cr ?a = 0" "batch_ref ?a = ''R1''" by code_simp+
  have b: "batch_dr ?b = 50" "batch_cr ?b = 30" "batch_ref ?b = ''R1''" by code_simp+
  have c: "batch_dr ?c = 0" "batch_cr ?c = 0" by code_simp+
  show ?thesis
    using batch_row_txns_split [of ?a] batch_row_txns_split [of ?b] batch_row_txns_split [of ?c]
    unfolding a b c by simp
qed

text \<open>
  C4 as stated fails on a row without a reference number: the id is null, not \<open>-DR\<close>
  appended to the (empty) reference.
\<close>

theorem batch_row_no_ref_counterexample:
  "batch_ref [(''Effective Date'', ''2024-01-05''), (''DR Amount'', ''50''), (''CR Amount'', ''0'')] = []
   \<and> map amount (batch_row_txns [(''Effective Date'', ''2024-01-05''), (''DR Amount'', ''50''),
                                 (''CR Amount'', ''0'')]) = [- 50]
   \<and> map external_id (batch_row_txns [(''Effective Date'', ''2024-01-05''), (''DR Amount'', ''50''),
                                       (''CR Amount'', ''0'')]) = [None]"
  by code_simp

text \<open>
  C8, as the code has it. The amount of the transaction of a generic row is
  \<open>resolved_amount\<close>, and a row whose amount is zero gives no transaction (and no error:
  the loop goes on to the next row). The debit case prints the number and reads it back;
  the hypothesis says that this round trip returns the number, as it does for the amounts
  that the runtime prints in plain decimal notation.
\<close>

theorem generic_row_txns_amount:
  assumes "\<not> truthy (get r ''Amount'') \<Longrightarrow> \<not> truthy (get r ''Credit'') \<Longrightarrow> truthy (get r ''Debit'')
           \<Longrightarrow> parseNumber (Some (''-'' @ String_of_number \<bar>parseNumber (get r ''Debit'')\<bar>))
               = - \<bar>parseNumber (get r ''Debit'')\<bar>"
  shows "map amount (generic_row_txns String_of_number r)
           = (if resolved_amount r = 0 then [] else [resolved_amount r])"
proof -
  have "parseNumber (generic_amount String_of_number r) = resolved_amount r"
    using assms
    by (auto simp: generic_amount_def resolved_amount_def truthy_js_or js_or_def)
  then show ?thesis
    by (simp add: generic_row_txns_def Let_def)
qed

theorem generic_row_txns_amount_witness:
  "map amount (generic_row_txns string_of_whole
      [(''Date'', ''2024-01-05''), (''Description'', ''fee''), (''Debit'', ''50'')]) = [- 50]
   \<and> generic_row_txns string_of_whole
      [(''Date'', ''2024-01-05''), (''Description'', ''void''), (''Amount'', ''0.00''), (''Credit'', ''5'')] = []"
proof -
  let ?a = "[(''Date'', ''2024-01-05''), (''Description'', ''fee''), (''Debit'', ''50'')]"
  let ?b = "[(''Date'', ''2024-01-05''), (''Description'', ''void''), (''Amount'', ''0.00''), (''Credit'', ''5'')]"
  have rt: "parseNumber (Some (''-'' @ string_of_whole \<bar>parseNumber (get ?a ''Debit'')\<bar>))
              = - \<bar>parseNumber (get ?a ''Debit'')\<bar>" by code_simp
  have a: "resolved_amount ?a = - 50" by code_simp
  have tb: "truthy (get ?b ''Amount'')" by code_simp
  have b: "resolved_amount ?b = 0" by code_simp
  have "map amount (generic_row_txns string_of_whole ?a) = [- 50]"
    using generic_row_txns_amount [of ?a string_of_whole, OF rt] a by simp
  moreover have "map amount (generic_row_txns string_of_whole ?b) = []"
    using generic_row_txns_amount [of ?b string_of_whole] tb b by simp
  ultimately show ?thesis by simp
qed

text \<open>
  C8 as stated fails on a row whose \<open>Debit\<close> cell is negative: the amount is minus the
  absolute value of the debit, not its negation.
\<close>

theorem generic_row_negative_debit_counterexample:
  "map amount (generic_row_txns string_of_whole
      [(''Date'', ''2024-01-05''), (''Description'', ''fee''), (''Debit'', ''-50'')]) = [- 50]
   \<and> - parseNumber (get [(''Date'', ''2024-01-05''), (''Description'', ''fee''), (''Debit'', ''-50'')]
                       ''Debit'') = 50"
  by code_simp

section \<open>Properties of \<open>insertBankTransactions\<close>\<close>

lemma insert_bank_loop_total:
  "\<forall>t\<in>set ts. \<not> rejects t \<Longrightarrow>
   insert_bank_loop rejects sid d ts = Inr (foldl (insert_bank_txn sid) d ts)"
  by (induction ts arbitrary: d) auto

lemma bank_rows_step:
  "length (tbl_rows (bank_transactions (insert_bank_txn sid d t)))
     = length (tbl_rows (bank_transactions d))
       + (if bank_conflict sid (txn_external_id t) (bank_transactions d) then 0 else 1)"
  by (simp add: insert_bank_txn_def Let_def insert_row_def split: prod.splits option.splits)

lemma bank_conflict_step:
  "bank_conflict sid e (bank_transactions d) \<Longrightarrow>
   bank_conflict sid e (bank_transactions (insert_bank_txn sid' d t))"
  by (auto simp: insert_bank_txn_def Let_def insert_row_def bank_conflict_def list_ex_iff
      split: prod.splits option.splits)

lemma bank_rows_fold_le:
  "length (tbl_rows (bank_transactions (foldl (insert_bank_txn sid) d ts)))
     \<le> length (tbl_rows (bank_transactions d)) + length ts"
proof (induction ts arbitrary: d)
  case Nil
  show ?case by simp
next
  case (Cons t ts)
  have "length (tbl_rows (bank_transactions (foldl (insert_bank_txn sid) (insert_bank_txn sid d t) ts)))
          \<le> length (tbl_rows (bank_transactions (insert_bank_txn sid d t))) + length ts"
    by (rule Cons.IH)
  also have "\<dots> \<le> (length (tbl_rows (bank_transactions d)) + 1) + length ts"
    by (simp add: bank_rows_step)
  finally show ?case by simp
qed

lemma bank_rows_fold_less:
  "t \<in> set ts \<Longrightarrow> bank_conflict sid (txn_external_id t) (bank_transactions d) \<Longrightarrow>
   length (tbl_rows (bank_transactions (foldl (insert_bank_txn sid) d ts)))
     < length (tbl_rows (bank_transactions d)) + length ts"
proof (induction ts arbitrary: d)
  case Nil
  then show ?case by simp
next
  case (Cons x xs)
  let ?d1 = "insert_bank_txn sid d x"
  show ?case
  proof (cases "t = x")
    case True
    with Cons.prems have "length (tbl_rows (bank_transactions ?d1)) = length (tbl_rows (bank_transactions d))"
      by (simp add: bank_rows_step)
    with bank_rows_fold_le [of sid ?d1 xs] show ?thesis by simp
  next
    case False
    with Cons.prems have "t \<in> set xs" by simp
    moreover have "bank_conflict sid (txn_external_id t) (bank_transactions ?d1)"
      using Cons.prems(2) by (rule bank_conflict_step)
    ultimately have "length (tbl_rows (bank_transactions (foldl (insert_bank_txn sid) ?d1 xs)))
        < length (tbl_rows (bank_transactions ?d1)) + length xs"
      by (rule Cons.IH)
    also have "\<dots> \<le> (length (tbl_rows (bank_transactions d)) + 1) + length xs"
      by (simp add: bank_rows_step)
    finally show ?thesis by simp
  qed
qed

lemma getOrCreateSource_bank:
  "bank_transactions (fst (getOrCreateSource d n)) = bank_transactions d"
  by (simp add: getOrCreateSource_def insert_row_def split: option.splits prod.splits)

text \<open>
  C10. When the store accepts every statement, \<open>insertBankTransactions\<close> returns the length
  of the list of candidates as \<open>count\<close>, whatever the number of rows inserted: that number
  is at most the count, and is smaller as soon as one candidate conflicts with a row
  already in the table.
\<close>

theorem insertBankTransactions_count:
  assumes "\<forall>t\<in>set txns. \<not> rejects t"
  shows "\<exists>d'. insertBankTransactions rejects d sourceName txns = (d', Inr (length txns))
           \<and> length (tbl_rows (bank_transactions d'))
               \<le> length (tbl_rows (bank_transactions d)) + length txns
           \<and> ((\<exists>t\<in>set txns. bank_conflict (snd (getOrCreateSource d sourceName))
                                 (txn_external_id t) (bank_transactions d))
                \<longrightarrow> length (tbl_rows (bank_transactions d'))
                      < length (tbl_rows (bank_transactions d)) + length txns)"
proof -
  obtain d0 sid where g: "getOrCreateSource d sourceName = (d0, sid)" by (cases "getOrCreateSource d sourceName")
  have b0: "bank_transactions d0 = bank_transactions d"
    using getOrCreateSource_bank [of d sourceName] g by simp
  let ?d' = "foldl (insert_bank_txn sid) d0 txns"
  have run: "insertBankTransactions rejects d sourceName txns = (?d', Inr (length txns))"
    by (simp add: insertBankTransactions_def g insert_bank_loop_total [OF assms])
  have le: "length (tbl_rows (bank_transactions ?d')) \<le> length (tbl_rows (bank_transactions d)) + length txns"
    using bank_rows_fold_le [of sid d0 txns] b0 by simp
  have less: "length (tbl_rows (bank_transactions ?d')) < length (tbl_rows (bank_transactions d)) + length txns"
    if "t \<in> set txns" "bank_conflict sid (txn_external_id t) (bank_transactions d)" for t
    using bank_rows_fold_less [of t txns sid d0] that b0 by simp
  show ?thesis
    using run le less g by auto
qed

definition sample_txn :: bank_txn where
  "sample_txn = \<lparr>external_id = Some ''R1-DR'', txn_date = DateOf ''2024-01-05'', amount = - 50,
     currency = ''USD'', description = ''ACH'', memo = ''m'', balance_after = None,
     raw = [(''Reference Number'', ''R1''), (''DR Amount'', ''50'')]\<rparr>"

definition sample_bank_db :: db where
  "sample_bank_db = fst (insertBankTransactions (\<lambda>t. False) empty_db ''FNBPA'' [sample_txn])"

theorem insertBankTransactions_count_witness:
  "\<exists>d'. insertBankTransactions (\<lambda>t. False) sample_bank_db ''FNBPA'' [sample_txn] = (d', Inr 1)
        \<and> length (tbl_rows (bank_transactions d'))
            < length (tbl_rows (bank_transactions sample_bank_db)) + 1"
proof -
  have h: "\<forall>t\<in>set [sample_txn]. \<not> (\<lambda>t. False) t" by simp
  have c: "bank_conflict (snd (getOrCreateSource sample_bank_db ''FNBPA''))
             (txn_external_id sample_txn) (bank_transactions sample_bank_db)"
    by code_simp
  show ?thesis
    using insertBankTransactions_count [of "[sample_txn]" "\<lambda>t. False" sample_bank_db "''FNBPA''", OF h] c
    by auto
qed

section \<open>Properties of \<open>computeDueDate\<close>\<close>










section \<open>Properties of the file-level deduplication\<close>

lemma getOrCreateSource_csv: "csv_imports (fst (getOrCreateSource d n)) = csv_imports d"
  by (simp add: getOrCreateSource_def insert_row_def split: option.splits prod.splits)

lemma createImportMetadata_effect:
  "(fst (createImportMetadata d n ty m))\<lparr>ledger_sources := ledger_sources d,
       import_metadata := import_metadata d\<rparr> = d
   \<and> length (tbl_rows (import_metadata (fst (createImportMetadata d n ty m))))
       = Suc (length (tbl_rows (import_metadata d)))"
  by (simp add: createImportMetadata_def getOrCreateSource_def insert_row_def Let_def
      split: option.splits prod.splits)

lemma createImportMetadata_csv:
  "csv_imports (fst (createImportMetadata d n ty m)) = csv_imports d"
  "import_records (fst (createImportMetadata d n ty m)) = import_records d"
  by (simp_all add: createImportMetadata_def getOrCreateSource_def insert_row_def Let_def
      split: option.splits prod.splits)

lemma foldl_insert_length:
  "length (tbl_rows (foldl (\<lambda>t x. fst (insert_row (f x) t)) t0 xs)) = length (tbl_rows t0) + length xs"
  by (induction xs arbitrary: t0) (simp_all add: insert_row_def)

lemma addImportRecords_effect:
  "(addImportRecords d i recs)\<lparr>import_records := import_records d\<rparr> = d
   \<and> length (tbl_rows (import_records (addImportRecords d i recs)))
       = length (tbl_rows (import_records d)) + length recs"
proof -
  have "(\<lambda>t (ext, sum, r). fst (insert_row \<lparr>ir_import_metadata_id = i, ir_external_id = or_null ext,
                                    ir_checksum = str_or_null sum, ir_raw = r\<rparr> t))
        = (\<lambda>t x. fst (insert_row ((\<lambda>(ext, sum, r). \<lparr>ir_import_metadata_id = i, ir_external_id = or_null ext,
                                    ir_checksum = str_or_null sum, ir_raw = r\<rparr>) x) t))"
    by (auto simp: fun_eq_iff)
  then show ?thesis
    by (simp add: addImportRecords_def foldl_insert_length)
qed


lemma storeCsvImport_duplicate:
  "select_first (\<lambda>r. ci_checksum r = md5 content) (csv_imports d) = Some (i, prior) \<Longrightarrow>
   storeCsvImport md5 d filename content
     = (d, Inr \<lparr>sr_id = i, sr_isDuplicate = True, sr_alreadyProcessed = ci_processed prior,
               sr_message = (if ci_processed prior then ''CSV already imported and processed''
                             else ''CSV already imported but not processed'')\<rparr>)"
  by (simp add: storeCsvImport_def Let_def)

lemma importPoBills_duplicate_aux:
  assumes "select_first (\<lambda>r. ci_checksum r = md5 content) (csv_imports d) = Some (i, prior)"
  shows "\<exists>d'. importPoBills md5 hashRow L d content filename mimetype rows
                 = (d', Inr (Duplicate (if ci_processed prior then ''CSV already imported and processed''
                                        else ''CSV already imported but not processed'') i))
           \<and> d'\<lparr>ledger_sources := ledger_sources d, import_metadata := import_metadata d,
                 import_records := import_records d\<rparr> = d
           \<and> length (tbl_rows (import_metadata d')) = Suc (length (tbl_rows (import_metadata d)))
           \<and> length (tbl_rows (import_records d')) = length (tbl_rows (import_records d)) + length rows"
proof -
  let ?meta = "\<lparr>original_filename = filename,
              content_type = Some (if truthy mimetype then or_empty mimetype else ''text/csv''),
              row_count = length rows,
              raw_headers = (case rows of [] \<Rightarrow> [] | r # _ \<Rightarrow> keys r),
              sample = take 5 rows\<rparr>"
  obtain d1 metaId where c: "createImportMetadata d ''LocalCSV'' ''po_bills'' ?meta = (d1, metaId)"
    by (cases "createImportMetadata d ''LocalCSV'' ''po_bills'' ?meta")
  let ?recs = "map (\<lambda>r. (js_or (get r ''RefNumber'') (get r ''Ref Number''), hashRow r, r)) rows"
  let ?d2 = "addImportRecords d1 metaId ?recs"
  have e1: "d1\<lparr>ledger_sources := ledger_sources d, import_metadata := import_metadata d\<rparr> = d"
     "length (tbl_rows (import_metadata d1)) = Suc (length (tbl_rows (import_metadata d)))"
    using createImportMetadata_effect [of d "''LocalCSV''" "''po_bills''" ?meta] c by simp_all
  have e2: "?d2\<lparr>import_records := import_records d1\<rparr> = d1"
     "length (tbl_rows (import_records ?d2)) = length (tbl_rows (import_records d1)) + length rows"
    using addImportRecords_effect [of d1 metaId ?recs] by simp_all
  have r1: "import_records d1 = import_records d" "csv_imports d1 = csv_imports d"
    using createImportMetadata_csv [of d "''LocalCSV''" "''po_bills''" ?meta] c by simp_all
  have r2: "csv_imports ?d2 = csv_imports d1" "import_metadata ?d2 = import_metadata d1"
    "ledger_sources ?d2 = ledger_sources d1"
    by (simp_all add: addImportRecords_def)
  have st: "storeCsvImport md5 ?d2 filename content
              = (?d2, Inr \<lparr>sr_id = i, sr_isDuplicate = True, sr_alreadyProcessed = ci_processed prior,
                      sr_message = (if ci_processed prior then ''CSV already imported and processed''
                                    else ''CSV already imported but not processed'')\<rparr>)"
    using assms r1 r2 by (intro storeCsvImport_duplicate) simp
  have run: "importPoBills md5 hashRow L d content filename mimetype rows
          = (?d2, Inr (Duplicate (if ci_processed prior then ''CSV already imported and processed''
                                        else ''CSV already imported but not processed'') i))"
    by (simp add: importPoBills_def c st del: addImportRecords_def)
  have "?d2\<lparr>ledger_sources := ledger_sources d, import_metadata := import_metadata d,
                 import_records := import_records d\<rparr>
        = (?d2\<lparr>import_records := import_records d1\<rparr>)\<lparr>ledger_sources := ledger_sources d,
             import_metadata := import_metadata d\<rparr>"
    using r1 by simp
  also have "\<dots> = d" using e1(1) e2(1) by simp
  finally have same: "?d2\<lparr>ledger_sources := ledger_sources d, import_metadata := import_metadata d,
                 import_records := import_records d\<rparr> = d" .
  show ?thesis using run same e1(2) e2(2) r1 r2 by simp
qed

lemma storeCsvImport_csv_cong:
  "csv_imports d2 = csv_imports d \<Longrightarrow>
   csv_imports (fst (storeCsvImport md5 d2 f c)) = csv_imports (fst (storeCsvImport md5 d f c))"
  by (simp add: storeCsvImport_def Let_def insert_row_def split: option.splits prod.splits)

lemma importPoBills_fst:
  "fst (importPoBills md5 hashRow L d content filename mimetype rows)
     = fst (storeCsvImport md5
         (addImportRecords
            (fst (createImportMetadata d ''LocalCSV'' ''po_bills''
               \<lparr>original_filename = filename,
                content_type = Some (if truthy mimetype then or_empty mimetype else ''text/csv''),
                row_count = length rows,
                raw_headers = (case rows of [] \<Rightarrow> [] | r # _ \<Rightarrow> keys r),
                sample = take 5 rows\<rparr>))
            (snd (createImportMetadata d ''LocalCSV'' ''po_bills''
               \<lparr>original_filename = filename,
                content_type = Some (if truthy mimetype then or_empty mimetype else ''text/csv''),
                row_count = length rows,
                raw_headers = (case rows of [] \<Rightarrow> [] | r # _ \<Rightarrow> keys r),
                sample = take 5 rows\<rparr>))
            (map (\<lambda>r. (js_or (get r ''RefNumber'') (get r ''Ref Number''), hashRow r, r)) rows))
         filename content)"
  by (simp add: importPoBills_def Let_def split: prod.splits sum.splits del: addImportRecords_def)

lemma importPoBills_csv_imports:
  "csv_imports (fst (importPoBills md5 hashRow L d content filename mimetype rows))
     = csv_imports (fst (storeCsvImport md5 d filename content))"
proof -
  let ?meta = "\<lparr>original_filename = filename,
              content_type = Some (if truthy mimetype then or_empty mimetype else ''text/csv''),
              row_count = length rows,
              raw_headers = (case rows of [] \<Rightarrow> [] | r # _ \<Rightarrow> keys r),
              sample = take 5 rows\<rparr>"
  let ?c = "createImportMetadata d ''LocalCSV'' ''po_bills'' ?meta"
  have "csv_imports (fst ?c) = csv_imports d"
    by (rule createImportMetadata_csv)
  then have "csv_imports (addImportRecords (fst ?c) (snd ?c)
      (map (\<lambda>r. (js_or (get r ''RefNumber'') (get r ''Ref Number''), hashRow r, r)) rows)) = csv_imports d"
    by (simp add: addImportRecords_def)
  then show ?thesis
    unfolding importPoBills_fst by (rule storeCsvImport_csv_cong)
qed

lemma find_append_case:
  "find P (xs @ ys) = (case find P xs of Some x \<Rightarrow> Some x | None \<Rightarrow> find P ys)"
  by (induction xs) auto

lemma select_first_insert:
  "select_first p (fst (insert_row x t))
     = (case select_first p t of Some y \<Rightarrow> Some y
        | None \<Rightarrow> if p x then Some (tbl_next t, x) else None)"
  by (simp add: select_first_def insert_row_def find_append_case split: option.splits)

lemma importPoBills_leaves_checksum:
  "\<exists>i prior. select_first (\<lambda>r. ci_checksum r = md5 content)
      (csv_imports (fst (importPoBills md5 hashRow L d content (Some f) mimetype rows))) = Some (i, prior)"
  unfolding importPoBills_csv_imports
  by (cases "select_first (\<lambda>r. ci_checksum r = md5 content) (csv_imports d)")
     (auto simp: storeCsvImport_def Let_def select_first_def insert_row_def find_append_case
        split: prod.splits)

lemma sample_import_csv:
  "select_first (\<lambda>r. ci_checksum r = sample_md5 sample_csv) (csv_imports (fst (sample_import empty_db)))
     = Some (1, \<lparr>ci_filename = ''po.csv'', ci_csv_content = sample_csv, ci_file_size = 107,
                 ci_processed = False, ci_checksum = sample_csv\<rparr>)"
  unfolding sample_import_def importPoBills_csv_imports
  by (simp add: storeCsvImport_def Let_def select_first_def empty_db_def empty_table_def
      insert_row_def sample_csv_def sample_md5_def)

lemma storeCsvImport_provenance:
  "import_metadata (fst (storeCsvImport md5 d f c)) = import_metadata d"
  "import_records (fst (storeCsvImport md5 d f c)) = import_records d"
  by (simp_all add: storeCsvImport_def Let_def insert_row_def split: option.splits prod.splits)

lemma importPoBills_provenance:
  "length (tbl_rows (import_metadata (fst (importPoBills md5 hashRow L d content filename mimetype rows))))
     = Suc (length (tbl_rows (import_metadata d)))"
  "length (tbl_rows (import_records (fst (importPoBills md5 hashRow L d content filename mimetype rows))))
     = length (tbl_rows (import_records d)) + length rows"
proof -
  let ?meta = "\<lparr>original_filename = filename,
              content_type = Some (if truthy mimetype then or_empty mimetype else ''text/csv''),
              row_count = length rows,
              raw_headers = (case rows of [] \<Rightarrow> [] | r # _ \<Rightarrow> keys r),
              sample = take 5 rows\<rparr>"
  let ?c = "createImportMetadata d ''LocalCSV'' ''po_bills'' ?meta"
  let ?recs = "map (\<lambda>r. (js_or (get r ''RefNumber'') (get r ''Ref Number''), hashRow r, r)) rows"
  have a: "length (tbl_rows (import_metadata (fst ?c))) = Suc (length (tbl_rows (import_metadata d)))"
    using createImportMetadata_effect [of d "''LocalCSV''" "''po_bills''" ?meta] by simp
  have b: "import_metadata (addImportRecords (fst ?c) (snd ?c) ?recs) = import_metadata (fst ?c)"
    by (simp add: addImportRecords_def)
  have c: "length (tbl_rows (import_records (addImportRecords (fst ?c) (snd ?c) ?recs)))
             = length (tbl_rows (import_records (fst ?c))) + length ?recs"
    using addImportRecords_effect [of "fst ?c" "snd ?c" ?recs] by simp
  show "length (tbl_rows (import_metadata (fst (importPoBills md5 hashRow L d content filename mimetype rows))))
     = Suc (length (tbl_rows (import_metadata d)))"
    unfolding importPoBills_fst storeCsvImport_provenance b by (rule a)
  show "length (tbl_rows (import_records (fst (importPoBills md5 hashRow L d content filename mimetype rows))))
     = length (tbl_rows (import_records d)) + length rows"
    unfolding importPoBills_fst storeCsvImport_provenance c
    by (simp add: createImportMetadata_csv)
qed

text \<open>
  C1, as the code has it. When the store holds an import with the checksum of the
  content (as it does after any import of that content under a file name, see
  \<open>importPoBills_leaves_checksum\<close>), \<open>importPoBills\<close> returns, without raising, the object
  tagged \<open>isDuplicate\<close> with the id of the prior import and a message that tells whether
  that import was processed. It writes no row of \<open>csv_imports\<close> and changes no table
  other than the provenance tables: \<open>import_metadata\<close> gains one row and
  \<open>import_records\<close> one row for each row of the file (and \<open>ledger_sources\<close> the source
  \<open>LocalCSV\<close>, if new).
\<close>

theorem importPoBills_duplicate:
  assumes "select_first (\<lambda>r. ci_checksum r = md5 content) (csv_imports d) = Some (i, prior)"
  shows "\<exists>d'. importPoBills md5 hashRow L d content filename mimetype rows
                 = (d', Inr (Duplicate (if ci_processed prior then ''CSV already imported and processed''
                                        else ''CSV already imported but not processed'') i))
           \<and> d'\<lparr>ledger_sources := ledger_sources d, import_metadata := import_metadata d,
                 import_records := import_records d\<rparr> = d
           \<and> length (tbl_rows (import_metadata d')) = Suc (length (tbl_rows (import_metadata d)))
           \<and> length (tbl_rows (import_records d')) = length (tbl_rows (import_records d)) + length rows"
  using assms by (rule importPoBills_duplicate_aux)

theorem importPoBills_duplicate_witness:
  "\<exists>d'. sample_import (fst (sample_import empty_db))
           = (d', Inr (Duplicate ''CSV already imported but not processed'' 1))
       \<and> d'\<lparr>ledger_sources := ledger_sources (fst (sample_import empty_db)),
             import_metadata := import_metadata (fst (sample_import empty_db)),
             import_records := import_records (fst (sample_import empty_db))\<rparr>
           = fst (sample_import empty_db)
       \<and> length (tbl_rows (import_metadata d'))
           = Suc (length (tbl_rows (import_metadata (fst (sample_import empty_db)))))
       \<and> length (tbl_rows (import_records d'))
           = length (tbl_rows (import_records (fst (sample_import empty_db)))) + 2"
proof -
  have len: "length sample_rows = 2" by (simp add: sample_rows_def)
  show ?thesis
    using importPoBills_duplicate [where ?md5.0 = sample_md5 and content = sample_csv
        and d = "fst (sample_import empty_db)" and hashRow = sample_hashRow and L = calendar
        and filename = "Some ''po.csv''" and mimetype = "Some ''text/csv''" and rows = sample_rows,
        OF sample_import_csv]
    unfolding len sample_import_def [symmetric] by simp
qed

text \<open>
  C1 as stated fails: the second import of the same file is a duplicate, and it has
  written a row of \<open>import_metadata\<close> and two rows of \<open>import_records\<close>.
\<close>

theorem importPoBills_second_import_counterexample:
  "isDuplicate (projr (snd (sample_import (fst (sample_import empty_db)))))
   \<and> length (tbl_rows (import_metadata (fst (sample_import empty_db)))) = 1
   \<and> length (tbl_rows (import_metadata (fst (sample_import (fst (sample_import empty_db)))))) = 2
   \<and> length (tbl_rows (import_records (fst (sample_import empty_db)))) = 2
   \<and> length (tbl_rows (import_records (fst (sample_import (fst (sample_import empty_db)))))) = 4"
proof -
  have len: "length sample_rows = 2" by (simp add: sample_rows_def)
  have e: "length (tbl_rows (import_metadata empty_db)) = 0"
    "length (tbl_rows (import_records empty_db)) = 0"
    by (simp_all add: empty_db_def empty_table_def)
  have dup: "isDuplicate (projr (snd (sample_import (fst (sample_import empty_db)))))"
    using importPoBills_duplicate_aux [where ?md5.0 = sample_md5 and content = sample_csv
        and d = "fst (sample_import empty_db)" and hashRow = sample_hashRow and L = calendar
        and filename = "Some ''po.csv''" and mimetype = "Some ''text/csv''" and rows = sample_rows,
        OF sample_import_csv]
    unfolding sample_import_def [symmetric] by (auto simp: isDuplicate_def)
  show ?thesis
    using dup by (simp add: sample_import_def importPoBills_provenance len e)
qed

section \<open>Properties of the inventory costing\<close>









definition summ :: "string \<Rightarrow> inventory_row table \<Rightarrow> (rat \<times> rat \<times> rat) option" where
  "summ X t = map_option (\<lambda>(i, r). (inv_current_quantity r, inv_total_cost r, inv_average_unit_cost r))
                (select_first (\<lambda>r. inv_item_name r = X) t)"

lemma select_first_update:
  assumes "\<And>x. p (f x) = p x"
  shows "select_first p (update_id j f t)
           = map_option (\<lambda>(i, x). if i = j then (i, f x) else (i, x)) (select_first p t)"
proof -
  have "find (\<lambda>(i, x). p x) (map (\<lambda>(i, x). if i = j then (i, f x) else (i, x)) rs)
          = map_option (\<lambda>(i, x). if i = j then (i, f x) else (i, x)) (find (\<lambda>(i, x). p x) rs)" for rs
    by (induction rs) (auto simp: assms split: if_splits)
  then show ?thesis by (simp add: select_first_def update_id_def)
qed


lemma wf_insert: "wf_table t \<Longrightarrow> wf_table (fst (insert_row x t))"
  by (auto simp: wf_table_def insert_row_def less_Suc_eq)










lemma summ_None_iff: "summ X t = None \<longleftrightarrow> select_first (\<lambda>r. inv_item_name r = X) t = None"
  by (simp add: summ_def)









section \<open>Properties of \<open>upsertInvoiceWithLines\<close>\<close>

lemma getOrCreateSource_cases:
  "(\<exists>i r. select_first (\<lambda>s. src_name s = n) (ledger_sources d) = Some (i, r)
           \<and> getOrCreateSource d n = (d, i))
   \<or> (select_first (\<lambda>s. src_name s = n) (ledger_sources d) = None
       \<and> getOrCreateSource d n
           = (d\<lparr>ledger_sources := fst (insert_row \<lparr>src_name = n, src_type = ''csv''\<rparr> (ledger_sources d))\<rparr>,
              tbl_next (ledger_sources d)))"
  by (auto simp: getOrCreateSource_def insert_row_def split: option.splits)

lemma getOrCreateSource_idem:
  "getOrCreateSource (fst (getOrCreateSource d n)) n
     = (fst (getOrCreateSource d n), snd (getOrCreateSource d n))"
proof -
  from getOrCreateSource_cases [of n d] show ?thesis
  proof (elim disjE exE conjE)
    fix i r
    assume "select_first (\<lambda>s. src_name s = n) (ledger_sources d) = Some (i, r)"
      "getOrCreateSource d n = (d, i)"
    then show ?thesis by simp
  next
    assume a: "select_first (\<lambda>s. src_name s = n) (ledger_sources d) = None"
      and b: "getOrCreateSource d n
           = (d\<lparr>ledger_sources := fst (insert_row \<lparr>src_name = n, src_type = ''csv''\<rparr> (ledger_sources d))\<rparr>,
              tbl_next (ledger_sources d))"
    show ?thesis
      unfolding b by (simp add: getOrCreateSource_def select_first_insert a)
  qed
qed

lemma getOrCreateSource_other:
  "invoices (fst (getOrCreateSource d n)) = invoices d"
  "invoice_lines (fst (getOrCreateSource d n)) = invoice_lines d"
  "catalog_items (fst (getOrCreateSource d n)) = catalog_items d"
  "customers (fst (getOrCreateSource d n)) = customers d"
  using getOrCreateSource_cases [of n d] by auto

lemma upsertCustomer_other:
  "invoices (fst (upsertCustomer d n c)) = invoices d"
  "invoice_lines (fst (upsertCustomer d n c)) = invoice_lines d"
  "catalog_items (fst (upsertCustomer d n c)) = catalog_items d"
  "ledger_sources (fst (upsertCustomer d n c)) = ledger_sources (fst (getOrCreateSource d n))"
  by (simp_all add: upsertCustomer_def Let_def case_prod_unfold getOrCreateSource_other
      split: option.splits)

lemma resolve_customer_fst:
  "fst (resolve_customer d n iv)
     = (case i_customer iv of None \<Rightarrow> d | Some c \<Rightarrow> fst (upsertCustomer d n c))"
  by (simp add: resolve_customer_def split: option.splits prod.splits sum.splits)

lemma resolve_customer_other:
  "invoices (fst (resolve_customer d n iv)) = invoices d"
  "invoice_lines (fst (resolve_customer d n iv)) = invoice_lines d"
  "catalog_items (fst (resolve_customer d n iv)) = catalog_items d"
  by (simp_all add: resolve_customer_fst upsertCustomer_other split: option.splits)

lemma resolve_customer_sources:
  "ledger_sources (fst (resolve_customer (fst (getOrCreateSource d n)) n iv))
     = ledger_sources (fst (getOrCreateSource d n))"
  by (simp add: resolve_customer_fst upsertCustomer_other getOrCreateSource_idem split: option.splits)

lemma upsert_invoice_row_other:
  "invoice_lines (fst (upsert_invoice_row sid iv cid d)) = invoice_lines d"
  "catalog_items (fst (upsert_invoice_row sid iv cid d)) = catalog_items d"
  "ledger_sources (fst (upsert_invoice_row sid iv cid d)) = ledger_sources d"
  by (simp_all add: upsert_invoice_row_def Let_def case_prod_unfold split: option.splits)

lemma replace_lines_other:
  "invoices (replace_lines sid i ls d) = invoices d"
  "catalog_items (replace_lines sid i ls d) = catalog_items d"
  "ledger_sources (replace_lines sid i ls d) = ledger_sources d"
  by (simp_all add: replace_lines_def)

lemma record_invoice_ledger_other:
  "invoices (record_invoice_ledger sid iv d) = invoices d"
  "invoice_lines (record_invoice_ledger sid iv d) = invoice_lines d"
  "catalog_items (record_invoice_ledger sid iv d) = catalog_items d"
  "ledger_sources (record_invoice_ledger sid iv d) = ledger_sources d"
  by (simp_all add: record_invoice_ledger_def Let_def)

text \<open>A successful upsert, in stages.\<close>

lemma upsert_success:
  assumes "upsertInvoiceWithLines d n iv ls = (d', Inr invoiceId)"
  shows "\<exists>d1 cid. invoices d1 = invoices d \<and> invoice_lines d1 = invoice_lines d
           \<and> catalog_items d1 = catalog_items d
           \<and> ledger_sources d1 = ledger_sources (fst (getOrCreateSource d n))
           \<and> invoiceId = snd (upsert_invoice_row (snd (getOrCreateSource d n)) iv cid d1)
           \<and> d' = record_invoice_ledger (snd (getOrCreateSource d n)) iv
                    (replace_lines (snd (getOrCreateSource d n)) invoiceId ls
                       (fst (upsert_invoice_row (snd (getOrCreateSource d n)) iv cid d1)))"
proof -
  let ?d0 = "fst (getOrCreateSource d n)"
  let ?sid = "snd (getOrCreateSource d n)"
  obtain d1 res where rc: "resolve_customer ?d0 n iv = (d1, res)"
    by (cases "resolve_customer ?d0 n iv")
  have d1: "d1 = fst (resolve_customer ?d0 n iv)" using rc by simp
  from assms obtain cid where res: "res = Inr cid"
    by (cases res) (auto simp: upsertInvoiceWithLines_def case_prod_unfold rc Let_def)
  have run: "invoiceId = snd (upsert_invoice_row ?sid iv cid d1)"
     "d' = record_invoice_ledger ?sid iv
            (replace_lines ?sid invoiceId ls (fst (upsert_invoice_row ?sid iv cid d1)))"
    using assms by (auto simp: upsertInvoiceWithLines_def case_prod_unfold rc res Let_def)
  have o: "invoices d1 = invoices d" "invoice_lines d1 = invoice_lines d"
    "catalog_items d1 = catalog_items d" "ledger_sources d1 = ledger_sources ?d0"
    unfolding d1 by (simp_all add: resolve_customer_other resolve_customer_sources getOrCreateSource_other)
  show ?thesis using o run by blast
qed

lemma fold_insert_rows:
  "tbl_rows (foldl (\<lambda>t l. fst (insert_row (f l) t)) t ls)
     = tbl_rows t @ enumerate (tbl_next t) (map f ls)
   \<and> tbl_next (foldl (\<lambda>t l. fst (insert_row (f l) t)) t ls) = tbl_next t + length ls"
proof (induction ls arbitrary: t)
  case Nil
  show ?case by simp
next
  case (Cons l ls)
  show ?case
    using Cons.IH [of "fst (insert_row (f l) t)"]
    by (simp add: insert_row_def)
qed

lemma invoice_lines_replace:
  "tbl_rows (invoice_lines (replace_lines sid i ls d))
     = filter (\<lambda>(k, r). il_invoice_id r \<noteq> i) (tbl_rows (invoice_lines d))
       @ enumerate (tbl_next (invoice_lines d)) (map (invoice_line_row (catalog_items d) sid i) ls)"
  "tbl_next (invoice_lines (replace_lines sid i ls d)) = tbl_next (invoice_lines d) + length ls"
  by (simp_all add: replace_lines_def fold_insert_rows delete_where_def)

lemma lines_of_replace:
  "lines_of i (replace_lines sid i ls d)
     = enumerate (tbl_next (invoice_lines d)) (map (invoice_line_row (catalog_items d) sid i) ls)"
proof -
  have a: "filter (\<lambda>(k, r). il_invoice_id r = i)
             (filter (\<lambda>(k, r). il_invoice_id r \<noteq> i) (tbl_rows (invoice_lines d))) = []"
    unfolding filter_empty_conv by auto
  have b: "filter (\<lambda>(k, r). il_invoice_id r = i)
             (enumerate (tbl_next (invoice_lines d)) (map (invoice_line_row (catalog_items d) sid i) ls))
           = enumerate (tbl_next (invoice_lines d)) (map (invoice_line_row (catalog_items d) sid i) ls)"
    by (rule filter_True) (auto simp: in_set_enumerate_eq invoice_line_row_def)
  show ?thesis
    unfolding lines_of_def invoice_lines_replace filter_append a b by simp
qed

lemma replace_removes_old:
  assumes "wf_table (invoice_lines d)" and "(k, r) \<in> set (lines_of i d)"
  shows "(k, r) \<notin> set (tbl_rows (invoice_lines (replace_lines sid i ls d)))"
proof -
  from assms(2) have m: "(k, r) \<in> set (tbl_rows (invoice_lines d))" and i: "il_invoice_id r = i"
    by (auto simp: lines_of_def)
  from assms(1) m have "k < tbl_next (invoice_lines d)"
    by (force simp: wf_table_def)
  then have "(k, r) \<notin> set (enumerate (tbl_next (invoice_lines d))
           (map (invoice_line_row (catalog_items d) sid i) ls))"
    by (auto simp: in_set_enumerate_eq)
  then show ?thesis using i by (auto simp: invoice_lines_replace)
qed

lemma wf_delete: "wf_table t \<Longrightarrow> wf_table (delete_where p t)"
  by (auto simp: wf_table_def delete_where_def distinct_map_filter)

lemma wf_fold_insert: "wf_table t \<Longrightarrow> wf_table (foldl (\<lambda>t l. fst (insert_row (f l) t)) t ls)"
  by (induction ls arbitrary: t) (simp_all add: wf_insert)

lemma wf_replace: "wf_table (invoice_lines d) \<Longrightarrow> wf_table (invoice_lines (replace_lines sid i ls d))"
  by (simp add: replace_lines_def wf_delete wf_fold_insert)

lemma upsert_invoice_row_existing:
  assumes "or_null (i_external_id iv) = Some e"
    and "select_first (\<lambda>r. iv_source_id r = sid \<and> iv_external_id r = Some e) (invoices d) = Some (i, r)"
  shows "snd (upsert_invoice_row sid iv cid d) = i"
  using assms by (simp add: upsert_invoice_row_def Let_def)

lemma upsert_invoice_row_stored:
  assumes "or_null (i_external_id iv) = Some e"
  shows "\<exists>r. select_first (\<lambda>r. iv_source_id r = sid \<and> iv_external_id r = Some e)
                (invoices (fst (upsert_invoice_row sid iv cid d)))
              = Some (snd (upsert_invoice_row sid iv cid d), r)"
proof (cases "select_first (\<lambda>r. iv_source_id r = sid \<and> iv_external_id r = Some e) (invoices d)")
  case None
  then show ?thesis
    using assms
    by (simp add: upsert_invoice_row_def Let_def case_prod_unfold select_first_insert invoice_update_def)
       (simp add: insert_row_def)
next
  case (Some ir)
  obtain i r where ir: "ir = (i, r)" by (cases ir)
  have "select_first (\<lambda>r. iv_source_id r = sid \<and> iv_external_id r = Some e)
          (update_id i (invoice_update iv cid) (invoices d))
        = map_option (\<lambda>(k, x). if k = i then (k, invoice_update iv cid x) else (k, x))
            (select_first (\<lambda>r. iv_source_id r = sid \<and> iv_external_id r = Some e) (invoices d))"
    by (rule select_first_update) (simp add: invoice_update_def)
  then show ?thesis
    using assms Some ir by (simp add: upsert_invoice_row_def Let_def)
qed

lemma getOrCreateSource_snd_cong:
  "ledger_sources a = ledger_sources b \<Longrightarrow> snd (getOrCreateSource a n) = snd (getOrCreateSource b n)"
  by (simp add: getOrCreateSource_def insert_row_def split: option.splits prod.splits)

lemma or_null_Some: "e \<noteq> [] \<Longrightarrow> or_null (Some e) = Some e"
  by (simp add: or_null_def truthy_def)

lemma upsert_lines:
  assumes "upsertInvoiceWithLines d n iv ls = (d', Inr invoiceId)"
  shows "lines_of invoiceId d'
           = enumerate (tbl_next (invoice_lines d))
               (map (invoice_line_row (catalog_items d) (snd (getOrCreateSource d n)) invoiceId) ls)"
    and "wf_table (invoice_lines d) \<Longrightarrow> wf_table (invoice_lines d')"
    and "wf_table (invoice_lines d) \<Longrightarrow> old \<in> set (lines_of invoiceId d)
         \<Longrightarrow> old \<notin> set (tbl_rows (invoice_lines d'))"
    and "catalog_items d' = catalog_items d"
proof -
  let ?sid = "snd (getOrCreateSource d n)"
  from upsert_success [OF assms] obtain da cid where
    o: "invoices da = invoices d" "invoice_lines da = invoice_lines d"
       "catalog_items da = catalog_items d"
    and d': "d' = record_invoice_ledger ?sid iv
                    (replace_lines ?sid invoiceId ls (fst (upsert_invoice_row ?sid iv cid da)))"
    by blast
  let ?db = "fst (upsert_invoice_row ?sid iv cid da)"
  have b: "invoice_lines ?db = invoice_lines d" "catalog_items ?db = catalog_items d"
    using o by (simp_all add: upsert_invoice_row_other)
  have l: "lines_of invoiceId d' = lines_of invoiceId (replace_lines ?sid invoiceId ls ?db)"
    "invoice_lines d' = invoice_lines (replace_lines ?sid invoiceId ls ?db)"
    unfolding d' by (simp_all add: lines_of_def record_invoice_ledger_other)
  show "lines_of invoiceId d'
           = enumerate (tbl_next (invoice_lines d))
               (map (invoice_line_row (catalog_items d) ?sid invoiceId) ls)"
    unfolding l lines_of_replace b ..
  show "wf_table (invoice_lines d')" if "wf_table (invoice_lines d)"
    unfolding l using that b wf_replace [of ?db ?sid invoiceId ls] by simp
  show "old \<notin> set (tbl_rows (invoice_lines d'))"
    if "wf_table (invoice_lines d)" "old \<in> set (lines_of invoiceId d)"
  proof -
    obtain k r where old: "old = (k, r)" by (cases old)
    have "(k, r) \<in> set (lines_of invoiceId ?db)"
      using that(2) old b by (simp add: lines_of_def)
    moreover have "wf_table (invoice_lines ?db)" using that(1) b by simp
    ultimately show ?thesis
      unfolding l old by (intro replace_removes_old)
  qed
  show "catalog_items d' = catalog_items d"
    unfolding d' by (simp add: record_invoice_ledger_other replace_lines_other b)
qed

lemma upsert_stored:
  assumes "upsertInvoiceWithLines d n iv ls = (d', Inr invoiceId)"
    and "i_external_id iv = Some e" and "e \<noteq> []"
  shows "\<exists>r. select_first (\<lambda>r. iv_source_id r = snd (getOrCreateSource d n) \<and> iv_external_id r = Some e)
                (invoices d') = Some (invoiceId, r)"
    and "snd (getOrCreateSource d' n) = snd (getOrCreateSource d n)"
proof -
  let ?sid = "snd (getOrCreateSource d n)"
  from upsert_success [OF assms(1)] obtain da cid where
    o: "ledger_sources da = ledger_sources (fst (getOrCreateSource d n))"
    and i: "invoiceId = snd (upsert_invoice_row ?sid iv cid da)"
    and d': "d' = record_invoice_ledger ?sid iv
                    (replace_lines ?sid invoiceId ls (fst (upsert_invoice_row ?sid iv cid da)))"
    by blast
  have e: "or_null (i_external_id iv) = Some e" using assms(2,3) by (simp add: or_null_Some)
  have inv: "invoices d' = invoices (fst (upsert_invoice_row ?sid iv cid da))"
    unfolding d' by (simp add: record_invoice_ledger_other replace_lines_other)
  show "\<exists>r. select_first (\<lambda>r. iv_source_id r = ?sid \<and> iv_external_id r = Some e) (invoices d')
              = Some (invoiceId, r)"
    unfolding inv i by (rule upsert_invoice_row_stored [OF e])
  have "ledger_sources d' = ledger_sources (fst (getOrCreateSource d n))"
    unfolding d' using o
    by (simp add: record_invoice_ledger_other replace_lines_other upsert_invoice_row_other)
  then have "snd (getOrCreateSource d' n) = snd (getOrCreateSource (fst (getOrCreateSource d n)) n)"
    by (rule getOrCreateSource_snd_cong)
  then show "snd (getOrCreateSource d' n) = ?sid"
    by (simp add: getOrCreateSource_idem)
qed

lemma upsert_same_id:
  assumes "upsertInvoiceWithLines d n iv ls = (d', Inr invoiceId)"
    and "i_external_id iv = Some e" and "e \<noteq> []"
    and "select_first (\<lambda>r. iv_source_id r = snd (getOrCreateSource d n) \<and> iv_external_id r = Some e)
           (invoices d) = Some (i, r)"
  shows "invoiceId = i"
proof -
  let ?sid = "snd (getOrCreateSource d n)"
  from upsert_success [OF assms(1)] obtain da cid where
    o: "invoices da = invoices d"
    and i: "invoiceId = snd (upsert_invoice_row ?sid iv cid da)"
    by blast
  have e: "or_null (i_external_id iv) = Some e" using assms(2,3) by (simp add: or_null_Some)
  show ?thesis
    unfolding i using assms(4) o by (intro upsert_invoice_row_existing [OF e]) simp
qed

text \<open>
  C9. When an invoice with an external id is imported and then imported again from the
  same source with other lines, both imports return the same invoice id; after the
  second, the lines stored for the invoice are exactly the rows made from the new
  lines, in order, and no row that the invoice had after the first import is left in
  \<open>invoice_lines\<close>.
\<close>

theorem upsertInvoiceWithLines_replaces_lines:
  assumes "upsertInvoiceWithLines d n iv1 ls1 = (d1, Inr id1)"
    and "upsertInvoiceWithLines d1 n iv2 ls2 = (d2, Inr id2)"
    and "i_external_id iv1 = Some e" and "i_external_id iv2 = Some e" and "e \<noteq> []"
    and "wf_table (invoice_lines d)"
  shows "id2 = id1
       \<and> map snd (lines_of id1 d1)
           = map (invoice_line_row (catalog_items d) (snd (getOrCreateSource d n)) id1) ls1
       \<and> map snd (lines_of id1 d2)
           = map (invoice_line_row (catalog_items d) (snd (getOrCreateSource d n)) id1) ls2
       \<and> (\<forall>old\<in>set (lines_of id1 d1). old \<notin> set (tbl_rows (invoice_lines d2)))"
proof -
  let ?sid = "snd (getOrCreateSource d n)"
  from upsert_stored [OF assms(1,3,5)] obtain r where
    st: "select_first (\<lambda>r. iv_source_id r = ?sid \<and> iv_external_id r = Some e) (invoices d1)
           = Some (id1, r)"
    and sid: "snd (getOrCreateSource d1 n) = ?sid"
    by blast
  have same: "id2 = id1"
    using upsert_same_id [OF assms(2,4,5), of id1 r] st sid by simp
  have wf1: "wf_table (invoice_lines d1)"
    using upsert_lines(2) [OF assms(1)] assms(6) .
  have cat: "catalog_items d1 = catalog_items d"
    using upsert_lines(4) [OF assms(1)] .
  have l1: "map snd (lines_of id1 d1) = map (invoice_line_row (catalog_items d) ?sid id1) ls1"
    unfolding upsert_lines(1) [OF assms(1)] by (simp add: map_snd_enumerate)
  have l2: "map snd (lines_of id1 d2) = map (invoice_line_row (catalog_items d) ?sid id1) ls2"
    using upsert_lines(1) [OF assms(2)] unfolding same sid cat by (simp add: map_snd_enumerate)
  have gone: "old \<notin> set (tbl_rows (invoice_lines d2))" if "old \<in> set (lines_of id1 d1)" for old
    using upsert_lines(3) [OF assms(2) wf1, of old] that unfolding same by simp
  show ?thesis using same l1 l2 gone by blast
qed

lemma upsertCustomer_total:
  "c_name c \<noteq> None \<Longrightarrow> \<exists>i. snd (upsertCustomer d n c) = Inr i"
  by (auto simp: upsertCustomer_def Let_def case_prod_unfold split: option.splits)

lemma resolve_customer_total:
  "(case i_customer iv of None \<Rightarrow> True | Some c \<Rightarrow> c_name c \<noteq> None) \<Longrightarrow>
   \<exists>cid. snd (resolve_customer d n iv) = Inr cid"
proof (cases "i_customer iv")
  case None
  then show ?thesis by (simp add: resolve_customer_def)
next
  case (Some c)
  assume "case i_customer iv of None \<Rightarrow> True | Some c \<Rightarrow> c_name c \<noteq> None"
  with Some have "c_name c \<noteq> None" by simp
  from upsertCustomer_total [OF this, of d n] obtain i where "snd (upsertCustomer d n c) = Inr i" ..
  then show ?thesis
    using Some by (cases "upsertCustomer d n c") (simp add: resolve_customer_def)
qed

lemma upsertInvoiceWithLines_total:
  assumes "case i_customer iv of None \<Rightarrow> True | Some c \<Rightarrow> c_name c \<noteq> None"
  shows "\<exists>i. snd (upsertInvoiceWithLines d n iv ls) = Inr i"
proof -
  from resolve_customer_total [OF assms, of "fst (getOrCreateSource d n)" n]
  obtain cid where "snd (resolve_customer (fst (getOrCreateSource d n)) n iv) = Inr cid" ..
  then show ?thesis
    by (cases "resolve_customer (fst (getOrCreateSource d n)) n iv")
       (simp add: upsertInvoiceWithLines_def case_prod_unfold Let_def)
qed

theorem upsertInvoiceWithLines_replaces_lines_witness:
  "projr (snd second_upsert) = projr (snd first_upsert)
   \<and> map (il_description \<circ> snd) (lines_of (projr (snd first_upsert)) (fst first_upsert))
       = [Some ''Setup'', Some ''Licence'']
   \<and> map (il_description \<circ> snd) (lines_of (projr (snd first_upsert)) (fst second_upsert))
       = [Some ''Labour'']"
proof -
  have c: "case i_customer sample_invoice of None \<Rightarrow> True | Some c \<Rightarrow> c_name c \<noteq> None"
    by (simp add: sample_invoice_def)
  obtain id1 where 1: "snd first_upsert = Inr id1"
    using upsertInvoiceWithLines_total [OF c] unfolding first_upsert_def by blast
  obtain id2 where 2: "snd second_upsert = Inr id2"
    using upsertInvoiceWithLines_total [OF c] unfolding second_upsert_def by blast
  have f: "upsertInvoiceWithLines empty_db ''HaloPSA'' sample_invoice
             [sample_line ''Setup'' 60, sample_line ''Licence'' 40] = (fst first_upsert, Inr id1)"
    using 1 by (simp add: first_upsert_def prod_eq_iff)
  have s: "upsertInvoiceWithLines (fst first_upsert) ''HaloPSA'' sample_invoice
             [sample_line ''Labour'' 100] = (fst second_upsert, Inr id2)"
    using 2 by (simp add: second_upsert_def prod_eq_iff)
  have e: "i_external_id sample_invoice = Some ''INV-1''" "''INV-1'' \<noteq> []"
    by (simp_all add: sample_invoice_def)
  have wf: "wf_table (invoice_lines empty_db)"
    by (simp add: wf_table_def empty_db_def empty_table_def)
  have d: "il_description (invoice_line_row cat sid i (sample_line what price)) = Some what" 
    if "what \<noteq> []" for cat sid i what price
    using that by (simp add: invoice_line_row_def sample_line_def or_null_def truthy_def)
  from upsertInvoiceWithLines_replaces_lines [OF f s e(1) e(1) e(2) wf]
  have "id2 = id1"
    and "map (il_description \<circ> snd) (lines_of id1 (fst first_upsert)) = [Some ''Setup'', Some ''Licence'']"
    and "map (il_description \<circ> snd) (lines_of id1 (fst second_upsert)) = [Some ''Labour'']"
    by (simp_all add: d map_map [symmetric] del: map_map)
  then show ?thesis by (simp add: 1 2)
qed

section \<open>Properties of the interchange serialiser\<close>
















lemma delimiter_free_Cons [simp]:
  "delimiter_free (c # s) \<longleftrightarrow>
     c \<noteq> CHR 0x09 \<and> c \<noteq> CHR 0x0D \<and> c \<noteq> CHR 0x0A \<and> c \<noteq> CHR 0x22 \<and> delimiter_free s"
  by (simp add: delimiter_free_def)

lemma delimiter_free_Nil [simp]: "delimiter_free []"
  by (simp add: delimiter_free_def)




















section \<open>Properties of \<open>parseBillsFromCsv\<close>\<close>

text \<open>
  The amounts of a bill: each line amount is the product of quantity and cost rounded to
  the cent, and the total is the sum of the line amounts, rounded to the cent.
\<close>

lemma round2_idem: "round2 (round2 x) = round2 x"
proof -
  have "\<lfloor>(of_int k :: rat) / 100 * 100 + 1 / 2\<rfloor> = k" for k :: int
    by (simp add: floor_unique)
  then show ?thesis unfolding round2_def by simp
qed

lemma foldl_sum: "foldl (\<lambda>t r. t + f r) a rs = a + sum_list (map f rs)"
  for a :: rat
  by (induction rs arbitrary: a) simp_all

lemma make_bill_amounts:
  "lines (make_bill L ic qc cc g) = map (make_line ic qc cc) (snd g)
   \<and> total_amount (make_bill L ic qc cc g)
       = round2 (sum_list (map line_amount (lines (make_bill L ic qc cc g))))
   \<and> line_amount (make_line ic qc cc r)
       = round2 (number_or_zero (or_empty (get r qc)) * number_or_zero (or_empty (get r cc)))"
  by (simp add: make_bill_def make_line_def group_total_def Let_def round2_idem foldl_sum
      comp_def)

text \<open>
  C2 fails in the code at keys that hold the separator. The first row has vendor
  \<open>A||B\<close> and reference \<open>C\<close>, the second vendor \<open>A\<close> and reference \<open>B||C\<close>; both
  get the key \<open>A||B||C||01/05/2024\<close>, so \<open>parseBillsFromCsv\<close> returns one bill with the
  lines of both rows, and splitting the key gives it the vendor \<open>A\<close>, the reference \<open>B\<close>
  and the date \<open>C\<close>.
\<close>

theorem parseBillsFromCsv_key_collision:
  "map (\<lambda>r. (get r ''Vendor'', get r ''RefNumber'')) collide_rows
     = [(Some ''A||B'', Some ''C''), (Some ''A'', Some ''B||C'')]
   \<and> parseBillsFromCsv calendar collide_rows
     = Inr [\<lparr>vendor = ''A'', ref_num = ''B'', bill_date = ''C'', total_amount = 35, due_date = ''C'',
             terms = ''Due upon receipt'',
             lines = [\<lparr>item = ''Widget'', line_description = [], quantity = 10, unit_cost = 5 / 2,
                       line_amount = 25\<rparr>,
                      \<lparr>item = ''Gadget'', line_description = [], quantity = 2, unit_cost = 5,
                       line_amount = 10\<rparr>]\<rparr>]"
  by code_simp

end
